theory Spec2Isabelle
  imports Complex_Main
begin

section \<open>Data model (types.ts)\<close>

text \<open>
  A JavaScript \<open>number\<close> (and an element of a tfjs tensor) is modelled as a \<open>real\<close>: the
  theorems below are about the formulas the code evaluates, in exact arithmetic, and say
  nothing on rounding, infinities or NaN. Every call of \<open>Math.random()\<close> is an explicit
  argument (a draw \<open>u\<close> with \<open>0 \<le> u < 1\<close>), in the order the code makes the calls.
\<close>

record SimState =
  position :: real
  velocity :: real
  target :: real

text \<open>\<open>Experience\<close> has the fields \<open>s\<close>, \<open>a\<close>, \<open>r\<close>, \<open>ns\<close>, \<open>d\<close>; they are prefixed here.\<close>

record Experience =
  exp_s :: "real list"
  exp_a :: "real list"
  exp_r :: real
  exp_ns :: "real list"
  exp_d :: bool

record TrainingMetric =
  step :: nat
  reward :: real
  criticLoss :: real
  actorLoss :: real
  qValue :: real

section \<open>The environment class \<open>PointMass1DEnv\<close> (src/unnamed/part_000)\<close>

record EnvStepResult =
  res_nextState :: SimState
  res_reward :: real
  res_done :: bool

record PointMass1DEnv =
  state :: SimState

text \<open>\<open>reset()\<close>: two draws, the first for the position, the second for the target.\<close>

definition Env_reset :: "real \<Rightarrow> real \<Rightarrow> PointMass1DEnv \<Rightarrow> SimState \<times> PointMass1DEnv" where
  "Env_reset u1 u2 env =
     (let st = \<lparr>position = (u1 - 0.5) * 1.8, velocity = 0, target = (u2 - 0.5) * 1.8\<rparr>
      in (st, env\<lparr>state := st\<rparr>))"

definition Env_getStateVector :: "SimState \<Rightarrow> real list" where
  "Env_getStateVector s = [position s / 2.5, velocity s / 1.0, (target s - position s) / 2.5]"

definition Env_step :: "real \<Rightarrow> PointMass1DEnv \<Rightarrow> EnvStepResult \<times> PointMass1DEnv" where
  "Env_step action env =
     (let newVelocity = velocity (state env) * 0.92 + action * 0.1;
          newPosition = position (state env) + newVelocity;
          dist = \<bar>target (state env) - newPosition\<bar>;
          reward0 = max (- 2.0) (- dist);
          reward1 = (if dist < 0.15 then reward0 + 0.3 else reward0);
          reward2 = (if dist < 0.05 then reward1 + 1.5 else reward1);
          done = (dist < 0.05 \<or> \<bar>newPosition\<bar> > 2.8);
          st = \<lparr>position = newPosition, velocity = newVelocity, target = target (state env)\<rparr>
      in (\<lparr>res_nextState = st, res_reward = reward2, res_done = done\<rparr>, env\<lparr>state := st\<rparr>))"

section \<open>The simulator class \<open>DDPGSimulator\<close> (src/services/rlEngine.ts): environment part\<close>

text \<open>\<open>DDPGSimulator.reset()\<close> returns a fresh state and stores nothing in the object.\<close>

definition Sim_reset :: "real \<Rightarrow> real \<Rightarrow> SimState" where
  "Sim_reset u1 u2 = \<lparr>position = (u1 - 0.5) * 1.8, velocity = 0, target = (u2 - 0.5) * 1.8\<rparr>"

definition Sim_getStateVector :: "SimState \<Rightarrow> real list" where
  "Sim_getStateVector s = [position s, velocity s, target s - position s]"

text \<open>
  The physics and reward of \<open>trainStep\<close> (rlEngine.ts, lines 104 to 120), for the action
  chosen in the same tick: the next state, the reward and the termination flag.
\<close>

definition Sim_physics :: "SimState \<Rightarrow> real \<Rightarrow> SimState \<times> real \<times> bool" where
  "Sim_physics currentState action =
     (let newVelocity = velocity currentState * 0.92 + action * 0.1;
          newPosition = position currentState + newVelocity;
          dist = \<bar>target currentState - newPosition\<bar>;
          reward0 = max (- 2.0) (- dist);
          reward1 = (if dist < 0.1 then reward0 + 0.5 else reward0);
          reward2 = (if dist < 0.05 then reward1 + 1.0 else reward1);
          done = (dist < 0.05 \<or> \<bar>newPosition\<bar> > 2.8);
          nextState = \<lparr>position = newPosition, velocity = newVelocity, target = target currentState\<rparr>
      in (nextState, reward2, done))"

section \<open>Networks and the tfjs library\<close>

text \<open>
  A tensor is the list of its elements, the weights of a model the list of its tensors
  (\<open>getWeights()\<close>). The four \<open>tf.LayersModel\<close> fields of both agent classes are the
  variables tfjs differentiates over; they are grouped in one record.
\<close>

type_synonym tensor = "real list"
type_synonym weights = "tensor list"

record networks =
  actor :: weights
  critic :: weights
  targetActor :: weights
  targetCritic :: weights

text \<open>
  The tfjs operations the classes call are parameters of the model, for an arbitrary
  optimizer state \<open>'o\<close>: the forward pass of an actor and of a critic on one row (the
  action dimension is 1, so an actor's output row is one number), \<open>tf.variableGrads\<close> of a
  loss closure at the current variables (the gradients by variable name), and
  \<open>Optimizer.applyGradients\<close> (Adam), which changes the variables and the optimizer.
\<close>

record 'o tfjs =
  actorPredict :: "weights \<Rightarrow> real list \<Rightarrow> real"
  criticPredict :: "weights \<Rightarrow> real list \<Rightarrow> real list \<Rightarrow> real"
  variableGrads :: "(networks \<Rightarrow> real) \<Rightarrow> networks \<Rightarrow> (string \<times> tensor) list"
  applyGradients :: "'o \<Rightarrow> (string \<times> tensor) list \<Rightarrow> networks \<Rightarrow> 'o \<times> networks"

section \<open>The agent classes \<open>DDPGAgent\<close> (src/unnamed/part_002) and \<open>DDPGSimulator\<close> (rlEngine.ts)\<close>

text \<open>
  \<open>DDPGSimulator\<close> has the fields of \<open>DDPGAgent\<close> and a step counter. The code of
  \<open>storeExperience\<close>, of the learning phase and of \<open>updateTargetNetworks\<close> is the same text
  in both files, but for the constant \<open>epsilonDecay\<close>; it is modelled once, on both records.
\<close>

record 'o DDPGAgent =
  nets :: networks
  actorOptimizer :: 'o
  criticOptimizer :: 'o
  replayBuffer :: "Experience list"
  epsilon :: real

record 'o DDPGSimulator = "'o DDPGAgent" +
  stepCount :: nat

definition bufferSize :: nat where "bufferSize = 10000"
definition batchSize :: nat where "batchSize = 64"
definition gamma :: real where "gamma = 0.99"
definition tau :: real where "tau = 0.005"
definition warmupSteps :: nat where "warmupSteps = 250"
definition epsilonMin :: real where "epsilonMin = 0.05"
definition Sim_epsilonDecay :: real where "Sim_epsilonDecay = 0.997"
definition Agent_epsilonDecay :: real where "Agent_epsilonDecay = 0.9975"

text \<open>The state of a fresh object: \<open>replayBuffer = []\<close>, \<open>epsilon = 1.0\<close>, \<open>stepCount = 0\<close>.\<close>

definition Agent_new :: "networks \<Rightarrow> 'o \<Rightarrow> 'o \<Rightarrow> 'o DDPGAgent" where
  "Agent_new n ao co =
     \<lparr>nets = n, actorOptimizer = ao, criticOptimizer = co, replayBuffer = [], epsilon = 1.0\<rparr>"

definition Sim_new :: "networks \<Rightarrow> 'o \<Rightarrow> 'o \<Rightarrow> 'o DDPGSimulator" where
  "Sim_new n ao co =
     \<lparr>nets = n, actorOptimizer = ao, criticOptimizer = co, replayBuffer = [], epsilon = 1.0,
      stepCount = 0\<rparr>"

subsection \<open>Replay buffer\<close>

text \<open>\<open>push\<close>, then \<open>shift\<close> when the length is above \<open>bufferSize\<close>.\<close>

definition storeExperience ::
  "Experience \<Rightarrow> ('o, 'z) DDPGAgent_scheme \<Rightarrow> ('o, 'z) DDPGAgent_scheme" where
  "storeExperience e ag =
     (let buf = replayBuffer ag @ [e]
      in ag\<lparr>replayBuffer := (if length buf > bufferSize then tl buf else buf)\<rparr>)"

text \<open>
  The sampling loop: iteration \<open>i\<close> pushes \<open>replayBuffer[Math.floor(Math.random() * length)]\<close>,
  where \<open>us i\<close> is the draw of iteration \<open>i\<close>.
\<close>

definition sampleBatch :: "(nat \<Rightarrow> real) \<Rightarrow> Experience list \<Rightarrow> Experience list" where
  "sampleBatch us buf = map (\<lambda>i. buf ! nat \<lfloor>us i * real (length buf)\<rfloor>) [0..<batchSize]"

subsection \<open>Action selection\<close>

text \<open>\<open>DDPGAgent.getAction\<close>; \<open>Math.random()\<close> is called only when \<open>useNoise\<close> holds.\<close>

definition Agent_getAction ::
  "'o tfjs \<Rightarrow> real list \<Rightarrow> bool \<Rightarrow> real \<Rightarrow> ('o, 'z) DDPGAgent_scheme \<Rightarrow> real \<times> real" where
  "Agent_getAction tf stateVector useNoise u ag =
     (let rawAct = actorPredict tf (actor (nets ag)) stateVector;
          qVal = criticPredict tf (critic (nets ag)) stateVector [rawAct];
          finalAct = (if useNoise
                      then (let noise = (u - 0.5) * 2 * epsilon ag
                            in max (- 1) (min 1 (rawAct + noise)))
                      else rawAct)
      in (finalAct, qVal))"

text \<open>
  Action selection of \<open>DDPGSimulator.trainStep\<close> (lines 88 to 101), on the object whose
  step counter has been incremented already.
\<close>

definition Sim_selectAction :: "'o tfjs \<Rightarrow> real list \<Rightarrow> real \<Rightarrow> 'o DDPGSimulator \<Rightarrow> real" where
  "Sim_selectAction tf sVec u sim =
     (let rawAct = actorPredict tf (actor (nets sim)) sVec
      in if stepCount sim < warmupSteps then (u - 0.5) * 2
         else (let noise = (u - 0.5) * 2 * epsilon sim
               in max (- 1) (min 1 (rawAct + noise))))"

subsection \<open>Target networks\<close>

definition tensor_mul :: "tensor \<Rightarrow> real \<Rightarrow> tensor" where
  "tensor_mul w c = map (\<lambda>x. x * c) w"

definition tensor_add :: "tensor \<Rightarrow> tensor \<Rightarrow> tensor" where
  "tensor_add v w = map (\<lambda>(x, y). x + y) (zip v w)"

text \<open>
  The closure \<open>update(net, targetNet)\<close>. Both networks of a pair are built by the same
  constructor, so their tensors have the same shapes; where they differ, tfjs raises
  (\<open>targetWeights[i]\<close> is undefined, or \<open>setWeights\<close> refuses the shapes): \<open>None\<close>.
\<close>

definition update :: "weights \<Rightarrow> weights \<Rightarrow> weights option" where
  "update weights targetWeights =
     (if map length weights = map length targetWeights
      then Some (map (\<lambda>(w, i). tensor_add (tensor_mul w tau) (tensor_mul (targetWeights ! i) (1 - tau)))
                  (zip weights [0..<length weights]))
      else None)"

definition updateTargetNetworks :: "networks \<Rightarrow> networks option" where
  "updateTargetNetworks n =
     (case update (actor n) (targetActor n) of
        None \<Rightarrow> None
      | Some ta \<Rightarrow>
          (case update (critic n) (targetCritic n) of
             None \<Rightarrow> None
           | Some tc \<Rightarrow> Some (n\<lparr>targetActor := ta, targetCritic := tc\<rparr>)))"

text \<open>
  What the constructors establish (\<open>createActor\<close> and \<open>createCritic\<close> build both networks
  of a pair) and \<open>update\<close> needs: the networks of each pair have the same shapes.
\<close>

definition sameShapes :: "networks \<Rightarrow> bool" where
  "sameShapes n =
     (map length (actor n) = map length (targetActor n) \<and>
      map length (critic n) = map length (targetCritic n))"

subsection \<open>Learning phase\<close>

definition mean :: "real list \<Rightarrow> real" where
  "mean xs = sum_list xs / real (length xs)"

definition meanSquaredError :: "real list \<Rightarrow> real list \<Rightarrow> real" where
  "meanSquaredError labels predictions = mean (map (\<lambda>(t, c). (t - c)\<^sup>2) (zip labels predictions))"

text \<open>\<open>targetQ = rewards.add(nextQ.mul(gamma).mul(tf.scalar(1).sub(terminals)))\<close>, row by row.\<close>

definition targetQ :: "'o tfjs \<Rightarrow> networks \<Rightarrow> Experience list \<Rightarrow> real list" where
  "targetQ tf n batch =
     (let rewards = map exp_r batch;
          nextStates = map exp_ns batch;
          terminals = map (\<lambda>b. if exp_d b then 1 else 0) batch;
          nextActions = map (\<lambda>ns. [actorPredict tf (targetActor n) ns]) nextStates;
          nextQ = map (\<lambda>(ns, na). criticPredict tf (targetCritic n) ns na) (zip nextStates nextActions)
      in map (\<lambda>(r, q, t). r + q * gamma * (1 - t)) (zip rewards (zip nextQ terminals)))"

definition currentQ :: "'o tfjs \<Rightarrow> networks \<Rightarrow> Experience list \<Rightarrow> real list" where
  "currentQ tf n batch = map (\<lambda>b. criticPredict tf (critic n) (exp_s b) (exp_a b)) batch"

definition criticLossFn :: "'o tfjs \<Rightarrow> Experience list \<Rightarrow> networks \<Rightarrow> real" where
  "criticLossFn tf batch n = meanSquaredError (targetQ tf n batch) (currentQ tf n batch)"

definition actorLossFn :: "'o tfjs \<Rightarrow> Experience list \<Rightarrow> networks \<Rightarrow> real" where
  "actorLossFn tf batch n =
     mean (map (\<lambda>b. criticPredict tf (critic n) (exp_s b) [actorPredict tf (actor n) (exp_s b)]) batch) * (- 1)"

text \<open>The manual clipping loop: \<open>tf.clipByValue(grads[key], -1, 1)\<close> for every key.\<close>

definition clipGrads :: "(string \<times> tensor) list \<Rightarrow> (string \<times> tensor) list" where
  "clipGrads grads = map (\<lambda>(key, g). (key, map (\<lambda>x. max (- 1) (min 1 x)) g)) grads"

text \<open>\<open>if (this.epsilon > this.epsilonMin) this.epsilon *= this.epsilonDecay\<close>.\<close>

definition decayEpsilon :: "real \<Rightarrow> real \<Rightarrow> real" where
  "decayEpsilon decay eps = (if eps > epsilonMin then eps * decay else eps)"

record TrainResult =
  tr_actorLoss :: real
  tr_criticLoss :: real
  tr_avgQ :: real

text \<open>The variables after the critic update and the actor update, before the target update.\<close>

definition gradientSteps ::
  "'o tfjs \<Rightarrow> Experience list \<Rightarrow> ('o, 'z) DDPGAgent_scheme \<Rightarrow> ('o \<times> networks) \<times> ('o \<times> networks)" where
  "gradientSteps tf batch ag =
     (let c = applyGradients tf (criticOptimizer ag)
                (clipGrads (variableGrads tf (criticLossFn tf batch) (nets ag))) (nets ag);
          a = applyGradients tf (actorOptimizer ag)
                (clipGrads (variableGrads tf (actorLossFn tf batch) (snd c))) (snd c)
      in (c, a))"

text \<open>
  The learning phase on the object \<open>ag\<close>, with the constant \<open>epsilonDecay\<close> of its class:
  \<open>DDPGAgent.train\<close> from line 87, and \<open>DDPGSimulator.trainStep\<close> lines 133 to 190.
\<close>

definition learn ::
  "real \<Rightarrow> 'o tfjs \<Rightarrow> (nat \<Rightarrow> real) \<Rightarrow> ('o, 'z) DDPGAgent_scheme \<Rightarrow>
     (TrainResult \<times> ('o, 'z) DDPGAgent_scheme) option" where
  "learn decay tf us ag =
     (let batch = sampleBatch us (replayBuffer ag);
          avgQ = mean (currentQ tf (nets ag) batch);
          cLoss = criticLossFn tf batch (nets ag);
          (c, a) = gradientSteps tf batch ag;
          aLoss = actorLossFn tf batch (snd c)
      in case updateTargetNetworks (snd a) of
           None \<Rightarrow> None
         | Some n \<Rightarrow>
             Some (\<lparr>tr_actorLoss = aLoss, tr_criticLoss = cLoss, tr_avgQ = avgQ\<rparr>,
                   ag\<lparr>nets := n, actorOptimizer := fst a, criticOptimizer := fst c,
                      epsilon := decayEpsilon decay (epsilon ag)\<rparr>))"

definition Agent_train ::
  "'o tfjs \<Rightarrow> (nat \<Rightarrow> real) \<Rightarrow> ('o, 'z) DDPGAgent_scheme \<Rightarrow>
     (TrainResult \<times> ('o, 'z) DDPGAgent_scheme) option" where
  "Agent_train tf us ag =
     (if length (replayBuffer ag) < batchSize
      then Some (\<lparr>tr_actorLoss = 0, tr_criticLoss = 0, tr_avgQ = 0\<rparr>, ag)
      else learn Agent_epsilonDecay tf us ag)"

subsection \<open>\<open>DDPGSimulator.trainStep\<close>\<close>

record TrainStepResult =
  nextState :: SimState
  metric :: TrainingMetric
  noiseLevel :: real

text \<open>The guard of the learning phase (line 132), on the object after the store.\<close>

definition Sim_learns :: "'o DDPGSimulator \<Rightarrow> bool" where
  "Sim_learns sim = (stepCount sim > warmupSteps \<and> length (replayBuffer sim) > batchSize)"

text \<open>
  One tick: \<open>u\<close> is the draw of the action selection, \<open>us\<close> the draws of the sampling loop.
  \<open>None\<close> is an exception of tfjs in the learning phase; the state the object is left in
  by a tick that raises is not modelled.
\<close>

definition Sim_trainStep ::
  "'o tfjs \<Rightarrow> real \<Rightarrow> (nat \<Rightarrow> real) \<Rightarrow> SimState \<Rightarrow> 'o DDPGSimulator \<Rightarrow>
     (TrainStepResult \<times> 'o DDPGSimulator) option" where
  "Sim_trainStep tf u us currentState sim0 =
     (let sim1 = sim0\<lparr>stepCount := stepCount sim0 + 1\<rparr>;
          sVec = Sim_getStateVector currentState;
          action = Sim_selectAction tf sVec u sim1;
          (nextSt, rew, done) = Sim_physics currentState action;
          nsVec = Sim_getStateVector nextSt;
          sim2 = storeExperience
                   \<lparr>exp_s = sVec, exp_a = [action], exp_r = rew, exp_ns = nsVec, exp_d = done\<rparr> sim1
      in if Sim_learns sim2
         then (case learn Sim_epsilonDecay tf us sim2 of
                 None \<Rightarrow> None
               | Some (res, sim3) \<Rightarrow>
                   Some (\<lparr>nextState = nextSt,
                          metric = \<lparr>step = stepCount sim3, reward = rew,
                                    criticLoss = tr_criticLoss res, actorLoss = tr_actorLoss res,
                                    qValue = tr_avgQ res\<rparr>,
                          noiseLevel = epsilon sim3\<rparr>, sim3))
         else Some (\<lparr>nextState = nextSt,
                     metric = \<lparr>step = stepCount sim2, reward = rew, criticLoss = 0, actorLoss = 0,
                               qValue = 0\<rparr>,
                     noiseLevel = epsilon sim2\<rparr>, sim2))"

section \<open>The orchestrator (src/App.tsx)\<close>

text \<open>
  \<open>App\<close> keeps the simulator and the current state in two refs. \<open>initSimulator\<close> builds a
  simulator and stores the state \<open>reset()\<close> returns; the interval callback (lines 58 to 86)
  runs one \<open>trainStep\<close> on the current state, stores the next state, and replaces it by a
  \<open>reset()\<close> state when the episode has ended. The React state setters (rendering, logs)
  are left out; callbacks are taken one after the other.
\<close>

record 'o App =
  simulatorRef :: "'o DDPGSimulator"
  simStateRef :: SimState

definition App_initSimulator :: "networks \<Rightarrow> 'o \<Rightarrow> 'o \<Rightarrow> real \<Rightarrow> real \<Rightarrow> 'o App" where
  "App_initSimulator n ao co u1 u2 =
     \<lparr>simulatorRef = Sim_new n ao co, simStateRef = Sim_reset u1 u2\<rparr>"

text \<open>The draws \<open>u1\<close>, \<open>u2\<close> are those of the \<open>reset()\<close> at the end of an episode.\<close>

definition App_tick ::
  "'o tfjs \<Rightarrow> real \<Rightarrow> (nat \<Rightarrow> real) \<Rightarrow> real \<Rightarrow> real \<Rightarrow> 'o App \<Rightarrow> 'o App option" where
  "App_tick tf u us u1 u2 app =
     (case Sim_trainStep tf u us (simStateRef app) (simulatorRef app) of
        None \<Rightarrow> None
      | Some (out, sim) \<Rightarrow>
          (let dist = \<bar>position (nextState out) - target (nextState out)\<bar>;
               outOfBounds = (\<bar>position (nextState out)\<bar> > 2.8)
           in Some (app\<lparr>simulatorRef := sim,
                        simStateRef := (if dist < 0.05 \<or> outOfBounds then Sim_reset u1 u2
                                        else nextState out)\<rparr>)))"

text \<open>A run of ticks: one tuple of draws \<open>(u, us, u1, u2)\<close> for every callback.\<close>

fun App_run ::
  "'o tfjs \<Rightarrow> (real \<times> (nat \<Rightarrow> real) \<times> real \<times> real) list \<Rightarrow> 'o App \<Rightarrow> 'o App option" where
  "App_run tf [] app = Some app"
| "App_run tf ((u, us, u1, u2) # ds) app =
     (case App_tick tf u us u1 u2 app of
        None \<Rightarrow> None
      | Some app' \<Rightarrow> App_run tf ds app')"

section \<open>Concrete inputs\<close>

text \<open>
  Small synthetic inputs on which the theorems below are evaluated: a tfjs whose networks
  output 0 (actor) and 10 (critic) and whose optimizer adds 1 to every actor weight, four one-tensor networks, a
  terminal transition, a state, and objects that hold \<open>k\<close> copies of the transition.
\<close>

definition demo_tf :: "unit tfjs" where
  "demo_tf =
     \<lparr>actorPredict = (\<lambda>w s. 0), criticPredict = (\<lambda>w s a. 10), variableGrads = (\<lambda>f n. []),
      applyGradients = (\<lambda>opt g n. (opt, n\<lparr>actor := map (map (\<lambda>x. x + 1)) (actor n)\<rparr>))\<rparr>"

definition demo_nets :: networks where
  "demo_nets = \<lparr>actor = [[1, 2]], critic = [[4]], targetActor = [[3, 5]], targetCritic = [[8]]\<rparr>"

definition demo_exp :: Experience where
  "demo_exp = \<lparr>exp_s = [0, 0, 0], exp_a = [0], exp_r = - 1, exp_ns = [0, 0, 0], exp_d = True\<rparr>"

definition demo_state :: SimState where
  "demo_state = \<lparr>position = 0.3, velocity = 0, target = - 0.2\<rparr>"

definition demo_draws :: "nat \<Rightarrow> real" where
  "demo_draws i = 0"

definition demo_agent :: "nat \<Rightarrow> unit DDPGAgent" where
  "demo_agent k = (Agent_new demo_nets () ())\<lparr>replayBuffer := replicate k demo_exp\<rparr>"

text \<open>\<open>k\<close> pairwise different transitions: transition \<open>i\<close> has reward \<open>i\<close>.\<close>

definition demo_stream :: "nat \<Rightarrow> Experience list" where
  "demo_stream k = map (\<lambda>i. demo_exp\<lparr>exp_r := real i\<rparr>) [0..<k]"

definition demo_sim :: "nat \<Rightarrow> unit DDPGSimulator" where
  "demo_sim k = (Sim_new demo_nets () ())\<lparr>replayBuffer := replicate k demo_exp, stepCount := k\<rparr>"

section \<open>The environment\<close>

text \<open>
  C10. The environment step leaves the target unchanged: the state returned by
  \<open>PointMass1DEnv.step\<close> (which is also the environment's new current state) and the next
  state computed by \<open>DDPGSimulator.trainStep\<close> have the target of the state before the step,
  for every state and every action.
\<close>

theorem step_preserves_target:
  "target (res_nextState (fst (Env_step action env))) = target (state env) \<and>
   target (state (snd (Env_step action env))) = target (state env) \<and>
   target (fst (Sim_physics currentState action)) = target currentState"
  by (simp add: Env_step_def Sim_physics_def Let_def)

text \<open>
  C4, as the code has it. \<open>PointMass1DEnv.getStateVector\<close> is a function of the state alone
  and returns the three components position / 2.5, velocity / 1.0 (the velocity) and
  (target - position) / 2.5. \<open>DDPGSimulator.getStateVector\<close>, the observation the running
  application uses, is a function of the state alone as well, but returns the components
  position, velocity and target - position without the division by 2.5.
\<close>

theorem getStateVector_components:
  "Env_getStateVector s = [position s / 2.5, velocity s, (target s - position s) / 2.5] \<and>
   Sim_getStateVector s = [position s, velocity s, target s - position s] \<and>
   Env_getStateVector s = map (\<lambda>(x, c). x / c) (zip (Sim_getStateVector s) [2.5, 1.0, 2.5])"
  by (simp add: Env_getStateVector_def Sim_getStateVector_def)

text \<open>
  C4 as stated fails for \<open>DDPGSimulator.getStateVector\<close>: at position 2.5, velocity 0 and
  target 0 it returns \<open>[2.5, 0, -2.5]\<close>, not \<open>[2.5 / 2.5, 0 / 1.0, (0 - 2.5) / 2.5]\<close>.
\<close>

theorem Sim_getStateVector_not_normalized:
  "Sim_getStateVector \<lparr>position = 2.5, velocity = 0, target = 0\<rparr>
     \<noteq> [2.5 / 2.5, 0 / 1.0, (0 - 2.5) / 2.5]"
  by (simp add: Sim_getStateVector_def)

text \<open>
  C5, as the code has it. From position 0.3, target -0.2 and velocity 0, one step with
  action 0 gives velocity 0, position 0.3 and the same target, the reward
  \<open>max (-2.0) (-0.5) = -0.5\<close> (the distance is 0.5; the clamp at -2.0 is not reached and no
  bonus applies) and no termination, in \<open>PointMass1DEnv.step\<close> and in the physics of
  \<open>DDPGSimulator.trainStep\<close> alike.
\<close>

theorem scenario_step_reward:
  "Env_step 0 \<lparr>state = demo_state\<rparr> =
     (\<lparr>res_nextState = \<lparr>position = 0.3, velocity = 0, target = - 0.2\<rparr>,
       res_reward = - 0.5, res_done = False\<rparr>,
      \<lparr>state = \<lparr>position = 0.3, velocity = 0, target = - 0.2\<rparr>\<rparr>) \<and>
   Sim_physics demo_state 0 =
     (\<lparr>position = 0.3, velocity = 0, target = - 0.2\<rparr>, - 0.5, False) \<and>
   \<bar>target demo_state - position (fst (Sim_physics demo_state 0))\<bar> = 0.5"
  by (simp add: Env_step_def Sim_physics_def Let_def demo_state_def)

text \<open>
  C5 as stated fails: the reward of that step is not -2.0.
\<close>

theorem scenario_reward_not_clamped:
  "res_reward (fst (Env_step 0 \<lparr>state = \<lparr>position = 0.3, velocity = 0, target = - 0.2\<rparr>\<rparr>)) \<noteq> - 2.0"
  by (simp add: Env_step_def Let_def)

text \<open>
  C8. For draws \<open>u1\<close>, \<open>u2\<close> in \<open>[0, 1)\<close>, \<open>reset()\<close> returns a state whose position and target
  lie in \<open>[-0.9, 0.9]\<close> and whose velocity is 0. The position is \<open>1.8 * u1 - 0.9\<close>, a
  function of the first draw alone, and the target is \<open>1.8 * u2 - 0.9\<close>, a function of the
  second draw alone: each is the uniform draw rescaled, and the two use separate draws.
  In \<open>PointMass1DEnv\<close> the returned state is the environment's new current state.
  \<open>DDPGSimulator.reset\<close> returns the same state and the caller keeps it as the current
  state (\<open>initSimulator\<close> of App.tsx).
\<close>

theorem reset_range:
  assumes "0 \<le> u1" "u1 < 1" "0 \<le> u2" "u2 < 1"
  shows "- 0.9 \<le> position (fst (Env_reset u1 u2 env)) \<and> position (fst (Env_reset u1 u2 env)) \<le> 0.9 \<and>
         - 0.9 \<le> target (fst (Env_reset u1 u2 env)) \<and> target (fst (Env_reset u1 u2 env)) \<le> 0.9 \<and>
         velocity (fst (Env_reset u1 u2 env)) = 0 \<and>
         state (snd (Env_reset u1 u2 env)) = fst (Env_reset u1 u2 env) \<and>
         position (fst (Env_reset u1 u2 env)) = 1.8 * u1 - 0.9 \<and>
         target (fst (Env_reset u1 u2 env)) = 1.8 * u2 - 0.9 \<and>
         Sim_reset u1 u2 = fst (Env_reset u1 u2 env) \<and>
         simStateRef (App_initSimulator n ao co u1 u2) = Sim_reset u1 u2"
proof -
  have pos: "position (fst (Env_reset u1 u2 env)) = 1.8 * u1 - 0.9"
    and tgt: "target (fst (Env_reset u1 u2 env)) = 1.8 * u2 - 0.9"
    by (simp_all add: Env_reset_def Let_def field_simps)
  have bounds: "- 0.9 \<le> 1.8 * u1 - 0.9 \<and> 1.8 * u1 - 0.9 \<le> 0.9 \<and>
                - 0.9 \<le> 1.8 * u2 - 0.9 \<and> 1.8 * u2 - 0.9 \<le> 0.9"
    using assms by simp
  have rest: "velocity (fst (Env_reset u1 u2 env)) = 0 \<and>
              state (snd (Env_reset u1 u2 env)) = fst (Env_reset u1 u2 env) \<and>
              Sim_reset u1 u2 = fst (Env_reset u1 u2 env) \<and>
              simStateRef (App_initSimulator n ao co u1 u2) = Sim_reset u1 u2"
    by (simp add: Env_reset_def Sim_reset_def App_initSimulator_def Let_def)
  from bounds rest show ?thesis unfolding pos tgt by simp
qed

text \<open>
  The draws 0.25 and 0.75 give the position -0.45 and the target 0.45.
\<close>

theorem reset_range_witness:
  "(0::real) \<le> 0.25 \<and> (0.25::real) < 1 \<and> (0::real) \<le> 0.75 \<and> (0.75::real) < 1 \<and>
   Env_reset 0.25 0.75 \<lparr>state = demo_state\<rparr> =
     (\<lparr>position = - 0.45, velocity = 0, target = 0.45\<rparr>,
      \<lparr>state = \<lparr>position = - 0.45, velocity = 0, target = 0.45\<rparr>\<rparr>) \<and>
   - 0.9 \<le> position (fst (Env_reset 0.25 0.75 \<lparr>state = demo_state\<rparr>)) \<and>
   position (fst (Env_reset 0.25 0.75 \<lparr>state = demo_state\<rparr>)) \<le> 0.9"
  using reset_range [of "0.25" "0.75" "\<lparr>state = demo_state\<rparr>"]
  by (simp add: Env_reset_def Let_def)

section \<open>The replay buffer\<close>

lemma replayBuffer_storeExperience:
  "replayBuffer (storeExperience e ag) =
     (if length (replayBuffer ag) \<ge> bufferSize then tl (replayBuffer ag @ [e])
      else replayBuffer ag @ [e])"
  by (simp add: storeExperience_def Let_def)

lemma store_as_drop:
  assumes "length b \<le> bufferSize"
  shows "(if length b \<ge> bufferSize then tl (b @ [e]) else b @ [e]) =
           drop (length (b @ [e]) - bufferSize) (b @ [e])"
proof (cases "length b = bufferSize")
  case True
  then have "b \<noteq> []" by (auto simp: bufferSize_def)
  then obtain x xs where "b = x # xs" by (cases b) auto
  with True show ?thesis by simp
next
  case False
  with assms show ?thesis by simp
qed

lemma drop_drop_window:
  fixes c :: nat
  shows "drop (length (drop (length xs - c) xs @ ys) - c) (drop (length xs - c) xs @ ys)
           = drop (length (xs @ ys) - c) (xs @ ys)"
proof (cases "length xs \<le> c")
  case True
  then show ?thesis by simp
next
  case False
  then have "length xs - c + (length ys + c - c) = length xs + length ys - c" by simp
  with False show ?thesis by (simp add: add.commute)
qed

lemma fold_store_buffer:
  "length (replayBuffer ag) \<le> bufferSize \<Longrightarrow>
   replayBuffer (fold storeExperience es ag) =
     drop (length (replayBuffer ag @ es) - bufferSize) (replayBuffer ag @ es)"
proof (induction es arbitrary: ag)
  case Nil
  then show ?case by simp
next
  case (Cons e es)
  let ?b = "replayBuffer ag"
  let ?ag = "storeExperience e ag"
  have b': "replayBuffer ?ag = drop (length (?b @ [e]) - bufferSize) (?b @ [e])"
    using store_as_drop [OF Cons.prems] by (simp only: replayBuffer_storeExperience)
  then have len: "length (replayBuffer ?ag) \<le> bufferSize" by simp
  have "replayBuffer (fold storeExperience (e # es) ag) = replayBuffer (fold storeExperience es ?ag)"
    by simp
  also have "\<dots> = drop (length (replayBuffer ?ag @ es) - bufferSize) (replayBuffer ?ag @ es)"
    by (rule Cons.IH [OF len])
  also have "\<dots> = drop (length ((?b @ [e]) @ es) - bufferSize) ((?b @ [e]) @ es)"
    unfolding b' by (rule drop_drop_window)
  finally show ?case by simp
qed

lemma length_storeExperience:
  "length (replayBuffer ag) \<le> bufferSize \<Longrightarrow>
   length (replayBuffer (storeExperience e ag)) = min (Suc (length (replayBuffer ag))) bufferSize"
  by (auto simp: storeExperience_def Let_def)

lemma last_storeExperience: "last (replayBuffer (storeExperience e ag)) = e"
proof (cases "replayBuffer ag")
  case Nil
  then show ?thesis by (simp add: storeExperience_def Let_def bufferSize_def)
next
  case (Cons x xs)
  then show ?thesis by (simp add: storeExperience_def Let_def)
qed

lemma stepCount_storeExperience: "stepCount (storeExperience e sim) = stepCount sim"
  by (simp add: storeExperience_def Let_def)

lemma nets_storeExperience: "nets (storeExperience e ag) = nets ag"
  and epsilon_storeExperience: "epsilon (storeExperience e ag) = epsilon ag"
  by (simp_all add: storeExperience_def Let_def)

lemma sampleBatch_length: "length (sampleBatch us buf) = batchSize"
  by (simp add: sampleBatch_def)

lemma floor_index_less:
  assumes "0 \<le> u" "u < 1" "0 < n"
  shows "nat \<lfloor>u * real n\<rfloor> < n"
proof -
  have "u * real n < real n" using assms by simp
  then have "\<lfloor>u * real n\<rfloor> < int n" by (simp add: floor_less_iff)
  then show ?thesis using assms(3) by linarith
qed

lemma sampleBatch_subset:
  assumes "buf \<noteq> []" "\<forall>i<batchSize. 0 \<le> us i \<and> us i < 1"
  shows "set (sampleBatch us buf) \<subseteq> set buf"
proof
  fix x assume "x \<in> set (sampleBatch us buf)"
  then obtain i where i: "i < batchSize" and x: "x = buf ! nat \<lfloor>us i * real (length buf)\<rfloor>"
    by (auto simp: sampleBatch_def)
  have "nat \<lfloor>us i * real (length buf)\<rfloor> < length buf"
    using floor_index_less [of "us i" "length buf"] assms i by simp
  then show "x \<in> set buf" unfolding x by (rule nth_mem)
qed

section \<open>The learning phase\<close>

lemma targetQ_length: "length (targetQ tf n batch) = length batch"
  by (simp add: targetQ_def Let_def)

lemma targetQ_nth:
  assumes "i < length batch"
  shows "targetQ tf n batch ! i =
           exp_r (batch ! i) +
           criticPredict tf (targetCritic n) (exp_ns (batch ! i))
             [actorPredict tf (targetActor n) (exp_ns (batch ! i))] * gamma *
           (1 - (if exp_d (batch ! i) then 1 else 0))"
  using assms by (simp add: targetQ_def Let_def)

lemma tensor_update_nth:
  assumes "length w = length tw" "j < length tw"
  shows "tensor_add (tensor_mul w tau) (tensor_mul tw (1 - tau)) ! j = tau * w ! j + (1 - tau) * tw ! j"
  using assms by (simp add: tensor_add_def tensor_mul_def)

lemma update_Some:
  assumes "map length ws = map length tws"
  shows "\<exists>new. update ws tws = Some new \<and> map length new = map length tws \<and>
           (\<forall>i<length tws. \<forall>j<length (tws ! i). new ! i ! j = tau * ws ! i ! j + (1 - tau) * tws ! i ! j)"
proof -
  let ?new = "map (\<lambda>(w, i). tensor_add (tensor_mul w tau) (tensor_mul (tws ! i) (1 - tau)))
                  (zip ws [0..<length ws])"
  have len: "length ws = length tws" using assms by (metis length_map)
  have lens: "length (ws ! i) = length (tws ! i)" if "i < length tws" for i
    using assms that len by (metis nth_map)
  have 1: "update ws tws = Some ?new" using assms by (simp add: update_def)
  have 2: "?new ! i = tensor_add (tensor_mul (ws ! i) tau) (tensor_mul (tws ! i) (1 - tau))"
    if "i < length tws" for i using that len by simp
  have 3: "map length ?new = map length tws"
    by (rule nth_equalityI) (simp_all add: len 2 lens tensor_add_def tensor_mul_def del: map_map)
  have 4: "?new ! i ! j = tau * ws ! i ! j + (1 - tau) * tws ! i ! j"
    if "i < length tws" "j < length (tws ! i)" for i j
    using that by (simp only: 2 tensor_update_nth [OF lens])
  from 1 3 4 show ?thesis by blast
qed

lemma update_shapes: "update ws tws = Some new \<Longrightarrow> map length ws = map length tws"
  by (simp add: update_def split: if_splits)

lemma update_elem:
  assumes "update ws tws = Some new" "i < length tws" "j < length (tws ! i)"
  shows "new ! i ! j = tau * ws ! i ! j + (1 - tau) * tws ! i ! j"
  using update_Some [OF update_shapes [OF assms(1)]] assms by auto

lemma updateTargetNetworks_Some:
  assumes "updateTargetNetworks n = Some n'"
  shows "update (actor n) (targetActor n) = Some (targetActor n') \<and>
         update (critic n) (targetCritic n) = Some (targetCritic n') \<and>
         actor n' = actor n \<and> critic n' = critic n"
  using assms by (auto simp: updateTargetNetworks_def split: option.splits)

lemma learn_Some:
  assumes "learn decay tf us ag = Some (res, ag')"
  shows "updateTargetNetworks (snd (snd (gradientSteps tf (sampleBatch us (replayBuffer ag)) ag))) = Some (nets ag') \<and>
         epsilon ag' = decayEpsilon decay (epsilon ag) \<and>
         replayBuffer ag' = replayBuffer ag \<and>
         DDPGAgent.more ag' = DDPGAgent.more ag \<and>
         tr_criticLoss res = criticLossFn tf (sampleBatch us (replayBuffer ag)) (nets ag) \<and>
         tr_avgQ res = mean (currentQ tf (nets ag) (sampleBatch us (replayBuffer ag)))"
  using assms by (auto simp: learn_def Let_def split: prod.splits option.splits)

lemma learn_stepCount:
  "learn decay tf us sim = Some (res, sim') \<Longrightarrow> stepCount sim' = stepCount sim"
  by (auto simp: learn_def Let_def split: prod.splits option.splits)

lemma learn_epsilon:
  "learn decay tf us ag = Some (res, ag') \<Longrightarrow> epsilon ag' = decayEpsilon decay (epsilon ag)"
  by (auto simp: learn_def Let_def split: prod.splits option.splits)

text \<open>
  The learning phase returns whenever the networks of each pair have the same shapes
  after the two updates.
\<close>

lemma learn_succeeds:
  assumes "n = snd (snd (gradientSteps tf (sampleBatch us (replayBuffer ag)) ag))"
    and "map length (actor n) = map length (targetActor n)"
    and "map length (critic n) = map length (targetCritic n)"
  shows "\<exists>res ag'. learn decay tf us ag = Some (res, ag')"
proof -
  obtain ta where ta: "update (actor n) (targetActor n) = Some ta"
    using update_Some [OF assms(2)] by blast
  obtain tc where tc: "update (critic n) (targetCritic n) = Some tc"
    using update_Some [OF assms(3)] by blast
  have "updateTargetNetworks n = Some (n\<lparr>targetActor := ta, targetCritic := tc\<rparr>)"
    by (simp add: updateTargetNetworks_def ta tc)
  then show ?thesis unfolding assms(1)
    by (cases "gradientSteps tf (sampleBatch us (replayBuffer ag)) ag") (simp add: learn_def Let_def)
qed

lemma Agent_train_cases:
  "Agent_train tf us ag =
     (if length (replayBuffer ag) < 64
      then Some (\<lparr>tr_actorLoss = 0, tr_criticLoss = 0, tr_avgQ = 0\<rparr>, ag)
      else learn Agent_epsilonDecay tf us ag)"
  by (simp add: Agent_train_def batchSize_def)

section \<open>One tick of the simulator\<close>

lemma Sim_selectAction_range:
  "0 \<le> u \<Longrightarrow> u < 1 \<Longrightarrow> - 1 \<le> Sim_selectAction tf sVec u sim \<and> Sim_selectAction tf sVec u sim \<le> 1"
  by (simp add: Sim_selectAction_def Let_def)

lemma Agent_getAction_noise_range:
  "- 1 \<le> fst (Agent_getAction tf sv True u ag) \<and> fst (Agent_getAction tf sv True u ag) \<le> 1"
  by (simp add: Agent_getAction_def Let_def)

lemma Sim_trainStep_eq:
  assumes "a = Sim_selectAction tf (Sim_getStateVector cs) u (sim\<lparr>stepCount := stepCount sim + 1\<rparr>)"
    and "e = \<lparr>exp_s = Sim_getStateVector cs, exp_a = [a], exp_r = fst (snd (Sim_physics cs a)),
              exp_ns = Sim_getStateVector (fst (Sim_physics cs a)), exp_d = snd (snd (Sim_physics cs a))\<rparr>"
    and "sim2 = storeExperience e (sim\<lparr>stepCount := stepCount sim + 1\<rparr>)"
  shows "Sim_trainStep tf u us cs sim =
     (if Sim_learns sim2
      then (case learn Sim_epsilonDecay tf us sim2 of
              None \<Rightarrow> None
            | Some (res, sim3) \<Rightarrow>
                Some (\<lparr>nextState = fst (Sim_physics cs a),
                       metric = \<lparr>step = stepCount sim3, reward = fst (snd (Sim_physics cs a)),
                                 criticLoss = tr_criticLoss res, actorLoss = tr_actorLoss res,
                                 qValue = tr_avgQ res\<rparr>,
                       noiseLevel = epsilon sim3\<rparr>, sim3))
      else Some (\<lparr>nextState = fst (Sim_physics cs a),
                  metric = \<lparr>step = stepCount sim2, reward = fst (snd (Sim_physics cs a)),
                            criticLoss = 0, actorLoss = 0, qValue = 0\<rparr>,
                  noiseLevel = epsilon sim2\<rparr>, sim2))"
  unfolding assms by (simp add: Sim_trainStep_def Let_def case_prod_beta split: option.splits)

lemma Sim_trainStep_Some:
  assumes "Sim_trainStep tf u us cs sim = Some (out, sim')"
    and a: "a = Sim_selectAction tf (Sim_getStateVector cs) u (sim\<lparr>stepCount := stepCount sim + 1\<rparr>)"
    and e: "e = \<lparr>exp_s = Sim_getStateVector cs, exp_a = [a], exp_r = fst (snd (Sim_physics cs a)),
              exp_ns = Sim_getStateVector (fst (Sim_physics cs a)), exp_d = snd (snd (Sim_physics cs a))\<rparr>"
    and s: "sim2 = storeExperience e (sim\<lparr>stepCount := stepCount sim + 1\<rparr>)"
  shows "nextState out = fst (Sim_physics cs a) \<and>
         reward (metric out) = fst (snd (Sim_physics cs a)) \<and>
         step (metric out) = stepCount sim + 1 \<and>
         stepCount sim' = stepCount sim + 1 \<and>
         replayBuffer sim' = replayBuffer sim2 \<and>
         noiseLevel out = epsilon sim' \<and>
         (\<not> Sim_learns sim2 \<longrightarrow> sim' = sim2 \<and> criticLoss (metric out) = 0 \<and>
            actorLoss (metric out) = 0 \<and> qValue (metric out) = 0) \<and>
         (Sim_learns sim2 \<longrightarrow>
            learn Sim_epsilonDecay tf us sim2 =
              Some (\<lparr>tr_actorLoss = actorLoss (metric out), tr_criticLoss = criticLoss (metric out),
                      tr_avgQ = qValue (metric out)\<rparr>, sim'))"
proof (cases "Sim_learns sim2")
  case False
  with assms(1) show ?thesis
    unfolding Sim_trainStep_eq [OF a e s] by (auto simp: s stepCount_storeExperience)
next
  case True
  with assms(1) obtain res where l: "learn Sim_epsilonDecay tf us sim2 = Some (res, sim')"
    and o: "out = \<lparr>nextState = fst (Sim_physics cs a),
                   metric = \<lparr>step = stepCount sim', reward = fst (snd (Sim_physics cs a)),
                             criticLoss = tr_criticLoss res, actorLoss = tr_actorLoss res,
                             qValue = tr_avgQ res\<rparr>,
                   noiseLevel = epsilon sim'\<rparr>"
    unfolding Sim_trainStep_eq [OF a e s] by (auto split: option.splits)
  have "stepCount sim' = stepCount sim + 1"
    using learn_stepCount [OF l] by (simp add: s stepCount_storeExperience)
  moreover have "replayBuffer sim' = replayBuffer sim2" using learn_Some [OF l] by simp
  ultimately show ?thesis using True l o by simp
qed

lemma Sim_trainStep_guard:
  assumes "Sim_trainStep tf u us cs sim = Some (out, sim')"
  shows "(length (replayBuffer sim') < 64 \<or> stepCount sim' \<le> 250 \<longrightarrow>
            criticLoss (metric out) = 0 \<and> actorLoss (metric out) = 0 \<and> qValue (metric out) = 0 \<and>
            nets sim' = nets sim \<and> epsilon sim' = epsilon sim) \<and>
         (64 < length (replayBuffer sim') \<and> 250 < stepCount sim' \<longrightarrow>
            (\<exists>sim2. nets sim2 = nets sim \<and> epsilon sim2 = epsilon sim \<and>
               replayBuffer sim2 = replayBuffer sim' \<and>
               learn Sim_epsilonDecay tf us sim2 =
                 Some (\<lparr>tr_actorLoss = actorLoss (metric out), tr_criticLoss = criticLoss (metric out),
                         tr_avgQ = qValue (metric out)\<rparr>, sim')))"
proof -
  define a where "a = Sim_selectAction tf (Sim_getStateVector cs) u (sim\<lparr>stepCount := stepCount sim + 1\<rparr>)"
  define e where "e = \<lparr>exp_s = Sim_getStateVector cs, exp_a = [a], exp_r = fst (snd (Sim_physics cs a)),
              exp_ns = Sim_getStateVector (fst (Sim_physics cs a)), exp_d = snd (snd (Sim_physics cs a))\<rparr>"
  define sim2 where "sim2 = storeExperience e (sim\<lparr>stepCount := stepCount sim + 1\<rparr>)"
  note s = Sim_trainStep_Some [OF assms a_def e_def sim2_def]
  have n2: "nets sim2 = nets sim" and e2: "epsilon sim2 = epsilon sim"
    by (simp_all add: sim2_def nets_storeExperience epsilon_storeExperience)
  have c2: "stepCount sim2 = stepCount sim'"
    using s by (simp add: sim2_def stepCount_storeExperience)
  have g: "Sim_learns sim2 \<longleftrightarrow> 64 < length (replayBuffer sim') \<and> 250 < stepCount sim'"
    using s c2 by (auto simp: Sim_learns_def warmupSteps_def batchSize_def)
  have 1: "criticLoss (metric out) = 0 \<and> actorLoss (metric out) = 0 \<and> qValue (metric out) = 0 \<and>
           nets sim' = nets sim \<and> epsilon sim' = epsilon sim"
    if "length (replayBuffer sim') < 64 \<or> stepCount sim' \<le> 250"
  proof -
    from that g have "\<not> Sim_learns sim2" by auto
    with s n2 e2 show ?thesis by simp
  qed
  have 2: "\<exists>sim2. nets sim2 = nets sim \<and> epsilon sim2 = epsilon sim \<and>
               replayBuffer sim2 = replayBuffer sim' \<and>
               learn Sim_epsilonDecay tf us sim2 =
                 Some (\<lparr>tr_actorLoss = actorLoss (metric out), tr_criticLoss = criticLoss (metric out),
                         tr_avgQ = qValue (metric out)\<rparr>, sim')"
    if "64 < length (replayBuffer sim') \<and> 250 < stepCount sim'"
  proof -
    from that g have "Sim_learns sim2" by simp
    with s n2 e2 show ?thesis by (intro exI [of _ sim2]) simp
  qed
  show ?thesis using 1 2 by blast
qed

lemma Sim_trainStep_returns_in_warmup:
  assumes "stepCount sim < warmupSteps"
  shows "\<exists>out sim'. Sim_trainStep tf u us cs sim = Some (out, sim')"
proof -
  define a where "a = Sim_selectAction tf (Sim_getStateVector cs) u (sim\<lparr>stepCount := stepCount sim + 1\<rparr>)"
  define e where "e = \<lparr>exp_s = Sim_getStateVector cs, exp_a = [a], exp_r = fst (snd (Sim_physics cs a)),
              exp_ns = Sim_getStateVector (fst (Sim_physics cs a)), exp_d = snd (snd (Sim_physics cs a))\<rparr>"
  define sim2 where "sim2 = storeExperience e (sim\<lparr>stepCount := stepCount sim + 1\<rparr>)"
  have "stepCount sim2 = stepCount sim + 1" by (simp add: sim2_def stepCount_storeExperience)
  with assms have "\<not> Sim_learns sim2" by (simp add: Sim_learns_def)
  then show ?thesis unfolding Sim_trainStep_eq [OF a_def e_def sim2_def] by simp
qed

lemma Sim_trainStep_epsilon:
  assumes "Sim_trainStep tf u us cs sim = Some (out, sim')"
  shows "epsilon sim' =
           (if warmupSteps < stepCount sim' \<and> batchSize < length (replayBuffer sim')
            then decayEpsilon Sim_epsilonDecay (epsilon sim) else epsilon sim)"
proof -
  define a where "a = Sim_selectAction tf (Sim_getStateVector cs) u (sim\<lparr>stepCount := stepCount sim + 1\<rparr>)"
  define e where "e = \<lparr>exp_s = Sim_getStateVector cs, exp_a = [a], exp_r = fst (snd (Sim_physics cs a)),
              exp_ns = Sim_getStateVector (fst (Sim_physics cs a)), exp_d = snd (snd (Sim_physics cs a))\<rparr>"
  define sim2 where "sim2 = storeExperience e (sim\<lparr>stepCount := stepCount sim + 1\<rparr>)"
  note s = Sim_trainStep_Some [OF assms a_def e_def sim2_def]
  have e2: "epsilon sim2 = epsilon sim" by (simp add: sim2_def epsilon_storeExperience)
  have g: "Sim_learns sim2 \<longleftrightarrow> warmupSteps < stepCount sim' \<and> batchSize < length (replayBuffer sim')"
  proof -
    have "stepCount sim2 = stepCount sim'" using s by (simp add: sim2_def stepCount_storeExperience)
    moreover have "replayBuffer sim2 = replayBuffer sim'" using s by simp
    ultimately show ?thesis by (simp add: Sim_learns_def)
  qed
  show ?thesis
  proof (cases "Sim_learns sim2")
    case True
    then have "learn Sim_epsilonDecay tf us sim2 =
        Some (\<lparr>tr_actorLoss = actorLoss (metric out), tr_criticLoss = criticLoss (metric out),
                tr_avgQ = qValue (metric out)\<rparr>, sim')" using s by simp
    from learn_epsilon [OF this] have "epsilon sim' = decayEpsilon Sim_epsilonDecay (epsilon sim2)" .
    with True g e2 show ?thesis by simp
  next
    case False
    with s have "sim' = sim2" by blast
    then have "epsilon sim' = epsilon sim" using e2 by simp
    moreover have "\<not> (warmupSteps < stepCount sim' \<and> batchSize < length (replayBuffer sim'))"
      using False g by blast
    ultimately show ?thesis by auto
  qed
qed

section \<open>Evaluation on the concrete inputs\<close>

text \<open>
  The concrete inputs: their fields, and that the learning phase and a tick return on them.
\<close>

lemma demo_agent_fields:
  "nets (demo_agent k) = demo_nets"
  "replayBuffer (demo_agent k) = replicate k demo_exp" "epsilon (demo_agent k) = 1"
  by (simp_all add: demo_agent_def Agent_new_def)

lemma demo_sim_fields:
  "nets (demo_sim k) = demo_nets" "stepCount (demo_sim k) = k"
  "replayBuffer (demo_sim k) = replicate k demo_exp" "epsilon (demo_sim k) = 1"
  by (simp_all add: demo_sim_def Sim_new_def)

lemma demo_stream_facts:
  "length (demo_stream k) = k" "distinct (demo_stream k)"
  by (simp_all add: demo_stream_def distinct_map inj_on_def demo_exp_def)

lemma demo_gradientSteps:
  "nets ag = demo_nets \<Longrightarrow>
   snd (snd (gradientSteps demo_tf batch ag)) = demo_nets\<lparr>actor := [[3, 4]]\<rparr>"
  by (simp add: gradientSteps_def Let_def demo_tf_def demo_nets_def)

lemma demo_learn_succeeds:
  assumes "nets ag = demo_nets"
  shows "\<exists>res ag'. learn d demo_tf us ag = Some (res, ag')"
  by (rule learn_succeeds [OF refl])
     (simp_all add: demo_gradientSteps [OF assms] demo_nets_def)

lemma demo_trainStep_succeeds:
  assumes "nets sim = demo_nets"
  shows "\<exists>out sim'. Sim_trainStep demo_tf u us cs sim = Some (out, sim')"
proof -
  define a where "a = Sim_selectAction demo_tf (Sim_getStateVector cs) u (sim\<lparr>stepCount := stepCount sim + 1\<rparr>)"
  define e where "e = \<lparr>exp_s = Sim_getStateVector cs, exp_a = [a], exp_r = fst (snd (Sim_physics cs a)),
              exp_ns = Sim_getStateVector (fst (Sim_physics cs a)), exp_d = snd (snd (Sim_physics cs a))\<rparr>"
  define sim2 where "sim2 = storeExperience e (sim\<lparr>stepCount := stepCount sim + 1\<rparr>)"
  have "nets sim2 = demo_nets" using assms by (simp add: sim2_def nets_storeExperience)
  then obtain res sim3 where "learn Sim_epsilonDecay demo_tf us sim2 = Some (res, sim3)"
    using demo_learn_succeeds by blast
  then show ?thesis unfolding Sim_trainStep_eq [OF a_def e_def sim2_def] by simp
qed

lemma demo_tick_99:
  "Sim_trainStep demo_tf 0.5 demo_draws demo_state (demo_sim 99) =
     Some (\<lparr>nextState = \<lparr>position = 0.3, velocity = 0, target = - 0.2\<rparr>,
            metric = \<lparr>step = 100, reward = - 0.5, criticLoss = 0, actorLoss = 0, qValue = 0\<rparr>,
            noiseLevel = 1\<rparr>,
           (demo_sim 99)\<lparr>stepCount := 100,
                         replayBuffer := replicate 99 demo_exp @
                           [\<lparr>exp_s = [0.3, 0, - 0.5], exp_a = [0], exp_r = - 0.5,
                             exp_ns = [0.3, 0, - 0.5], exp_d = False\<rparr>]\<rparr>)"
  by (simp add: Sim_trainStep_def Let_def Sim_selectAction_def Sim_physics_def Sim_getStateVector_def
      storeExperience_def Sim_learns_def demo_sim_def Sim_new_def demo_state_def warmupSteps_def
      bufferSize_def batchSize_def)

lemma demo_tick_250:
  "\<exists>out sim'. Sim_trainStep demo_tf u demo_draws demo_state (demo_sim 250) = Some (out, sim') \<and>
     length (replayBuffer sim') = 251 \<and> stepCount sim' = 251"
proof -
  obtain out sim' where t: "Sim_trainStep demo_tf u demo_draws demo_state (demo_sim 250) = Some (out, sim')"
    using demo_trainStep_succeeds [OF demo_sim_fields(1)] by blast
  note s = Sim_trainStep_Some [OF t refl refl refl]
  have "length (replayBuffer sim') = 251"
    using s by (simp add: length_storeExperience demo_sim_fields bufferSize_def)
  moreover have "stepCount sim' = 251" using s by (simp add: demo_sim_fields)
  ultimately show ?thesis using t by blast
qed

section \<open>The claims on the replay buffer, the networks and the tick\<close>

text \<open>
  C7. From a replay buffer within the capacity (the empty buffer of a fresh object in
  particular), every sequence of stores leaves at most 10,000 transitions. After
  capacity + k stores into the empty buffer, the buffer is the inserted sequence without
  its first k entries, in insertion order, and holds 10,000 entries: the oldest k are
  gone (none of them is left, when the inserted entries are distinct), and the newest k
  are the last k of the buffer (for k up to the capacity; beyond, the whole buffer is
  newer). A store into a buffer at capacity removes exactly the first entry and appends
  the new one.
\<close>

theorem replay_buffer_fifo:
  assumes "length (replayBuffer ag) \<le> bufferSize"
  shows "length (replayBuffer (fold storeExperience es ag)) \<le> 10000 \<and>
         (replayBuffer ag = [] \<and> length es = bufferSize + k \<longrightarrow>
            replayBuffer (fold storeExperience es ag) = drop k es \<and>
            length (replayBuffer (fold storeExperience es ag)) = 10000 \<and>
            es = take k es @ replayBuffer (fold storeExperience es ag) \<and>
            (distinct es \<longrightarrow> set (take k es) \<inter> set (replayBuffer (fold storeExperience es ag)) = {}) \<and>
            (k \<le> bufferSize \<longrightarrow>
               drop (bufferSize - k) (replayBuffer (fold storeExperience es ag)) = drop bufferSize es)) \<and>
         (length (replayBuffer ag) = bufferSize \<longrightarrow>
            replayBuffer (storeExperience e ag) = tl (replayBuffer ag) @ [e])"
proof -
  let ?buf = "replayBuffer (fold storeExperience es ag)"
  have eq: "?buf = drop (length (replayBuffer ag @ es) - bufferSize) (replayBuffer ag @ es)"
    by (rule fold_store_buffer [OF assms])
  have cap: "bufferSize = 10000" by (simp add: bufferSize_def)
  have 1: "length ?buf \<le> 10000" unfolding eq cap by simp
  have 2: "?buf = drop k es \<and> length ?buf = 10000 \<and> es = take k es @ ?buf \<and>
           (distinct es \<longrightarrow> set (take k es) \<inter> set ?buf = {}) \<and>
           (k \<le> bufferSize \<longrightarrow> drop (bufferSize - k) ?buf = drop bufferSize es)"
    if h: "replayBuffer ag = []" "length es = bufferSize + k"
  proof -
    have d: "?buf = drop k es" unfolding eq using h by simp
    have "distinct es \<Longrightarrow> set (take k es) \<inter> set (drop k es) = {}"
      using distinct_append [of "take k es" "drop k es"] by simp
    with d h cap show ?thesis by simp
  qed
  have 3: "replayBuffer (storeExperience e ag) = tl (replayBuffer ag) @ [e]"
    if "length (replayBuffer ag) = bufferSize"
    using that by (cases "replayBuffer ag") (simp_all add: replayBuffer_storeExperience cap)
  from 1 2 3 show ?thesis by blast
qed

text \<open>
  10,003 distinct transitions stored into an empty buffer leave all but the first three;
  a store into a full buffer drops its first entry.
\<close>

theorem replay_buffer_fifo_witness:
  "length (replayBuffer (demo_agent 0)) \<le> bufferSize \<and>
   replayBuffer (demo_agent 0) = [] \<and>
   length (demo_stream 10003) = bufferSize + 3 \<and>
   distinct (demo_stream 10003) \<and> (3::nat) \<le> bufferSize \<and>
   replayBuffer (fold storeExperience (demo_stream 10003) (demo_agent 0)) = drop 3 (demo_stream 10003) \<and>
   set (take 3 (demo_stream 10003)) \<inter>
     set (replayBuffer (fold storeExperience (demo_stream 10003) (demo_agent 0))) = {} \<and>
   length (replayBuffer (demo_agent 10000)) = bufferSize \<and>
   replayBuffer (storeExperience (demo_exp\<lparr>exp_r := 7\<rparr>) (demo_agent 10000))
     = tl (replicate 10000 demo_exp) @ [demo_exp\<lparr>exp_r := 7\<rparr>]"
proof -
  have l: "length (demo_stream 10003) = bufferSize + 3"
    by (simp add: demo_stream_facts bufferSize_def)
  have e: "replayBuffer (demo_agent 0) = []" by (simp add: demo_agent_fields)
  have b: "(3::nat) \<le> bufferSize" by (simp add: bufferSize_def)
  have c: "length (replayBuffer (demo_agent 10000)) = bufferSize"
    by (simp add: demo_agent_fields bufferSize_def)
  have f: "replayBuffer (fold storeExperience (demo_stream 10003) (demo_agent 0)) = drop 3 (demo_stream 10003) \<and>
           set (take 3 (demo_stream 10003)) \<inter>
             set (replayBuffer (fold storeExperience (demo_stream 10003) (demo_agent 0))) = {}"
  proof -
    have h: "length (replayBuffer (demo_agent 0)) \<le> bufferSize" by (simp add: e)
    from replay_buffer_fifo [OF h, of "demo_stream 10003" 3 demo_exp] e l demo_stream_facts(2) [of 10003]
    show ?thesis by (auto simp del: fold_simps)
  qed
  have s: "replayBuffer (storeExperience (demo_exp\<lparr>exp_r := 7\<rparr>) (demo_agent 10000))
     = tl (replicate 10000 demo_exp) @ [demo_exp\<lparr>exp_r := 7\<rparr>]"
  proof -
    have h: "length (replayBuffer (demo_agent 10000)) \<le> bufferSize" by (simp add: c)
    from replay_buffer_fifo [OF h, of "[]" 0 "demo_exp\<lparr>exp_r := 7\<rparr>"] c
    show ?thesis by (simp add: demo_agent_fields(2))
  qed
  from l e b c f s demo_stream_facts(2) [of 10003] show ?thesis by (auto simp del: fold_simps)
qed

text \<open>
  C6. For every element \<open>b\<close> of a batch, the critic's learning target is
  \<open>reward + 0.99 * (1 - terminal) * TargetCritic(nextObservation, TargetActor(nextObservation))\<close>,
  with terminal 1 for a terminal transition and 0 otherwise; for a terminal transition
  the target is the reward alone. The critic loss a learning phase reports is the mean
  squared error between these targets and the critic's values on the sampled batch.
\<close>

theorem critic_target_value:
  assumes "i < length batch" and "b = batch ! i"
  shows "length (targetQ tf n batch) = length batch \<and>
         targetQ tf n batch ! i =
           exp_r b + 0.99 * (1 - (if exp_d b then 1 else 0)) *
             criticPredict tf (targetCritic n) (exp_ns b) [actorPredict tf (targetActor n) (exp_ns b)] \<and>
         (exp_d b \<longrightarrow> targetQ tf n batch ! i = exp_r b) \<and>
         (learn decay tf us ag = Some (res, ag') \<longrightarrow>
            tr_criticLoss res =
              meanSquaredError (targetQ tf (nets ag) (sampleBatch us (replayBuffer ag)))
                (currentQ tf (nets ag) (sampleBatch us (replayBuffer ag))))"
proof -
  have "tr_criticLoss res =
          meanSquaredError (targetQ tf (nets ag) (sampleBatch us (replayBuffer ag)))
            (currentQ tf (nets ag) (sampleBatch us (replayBuffer ag)))"
    if "learn decay tf us ag = Some (res, ag')"
    using learn_Some [OF that] by (simp add: criticLossFn_def)
  then show ?thesis using assms by (simp add: targetQ_nth targetQ_length gamma_def)
qed

text \<open>
  With a target critic that answers 10, a terminal transition of reward -1 has the target
  -1 and a non-terminal one \<open>-1 + 0.99 * 10\<close>.
\<close>

theorem critic_target_value_witness:
  "(0::nat) < length [demo_exp, demo_exp\<lparr>exp_d := False\<rparr>] \<and>
   targetQ demo_tf demo_nets [demo_exp, demo_exp\<lparr>exp_d := False\<rparr>] ! 0 = - 1 \<and>
   targetQ demo_tf demo_nets [demo_exp, demo_exp\<lparr>exp_d := False\<rparr>] ! 1 = - 1 + 0.99 * 10 \<and>
   (\<exists>res ag'. learn Agent_epsilonDecay demo_tf demo_draws (demo_agent 64) = Some (res, ag') \<and>
      tr_criticLoss res =
        meanSquaredError
          (targetQ demo_tf (nets (demo_agent 64)) (sampleBatch demo_draws (replayBuffer (demo_agent 64))))
          (currentQ demo_tf (nets (demo_agent 64)) (sampleBatch demo_draws (replayBuffer (demo_agent 64)))))"
proof -
  let ?batch = "[demo_exp, demo_exp\<lparr>exp_d := False\<rparr>]"
  obtain res ag' where l: "learn Agent_epsilonDecay demo_tf demo_draws (demo_agent 64) = Some (res, ag')"
    using demo_learn_succeeds [OF demo_agent_fields(1)] by blast
  have 0: "targetQ demo_tf demo_nets ?batch ! 0 = - 1"
    using critic_target_value [of 0 ?batch demo_exp demo_tf demo_nets Agent_epsilonDecay demo_draws
        "demo_agent 64" res ag']
    by (simp add: demo_exp_def)
  have 1: "targetQ demo_tf demo_nets ?batch ! 1 = - 1 + 0.99 * 10"
    using critic_target_value [of 1 ?batch "demo_exp\<lparr>exp_d := False\<rparr>" demo_tf demo_nets
        Agent_epsilonDecay demo_draws "demo_agent 64" res ag']
    by (simp add: demo_exp_def demo_tf_def)
  have 2: "tr_criticLoss res =
        meanSquaredError
          (targetQ demo_tf (nets (demo_agent 64)) (sampleBatch demo_draws (replayBuffer (demo_agent 64))))
          (currentQ demo_tf (nets (demo_agent 64)) (sampleBatch demo_draws (replayBuffer (demo_agent 64))))"
    using critic_target_value [of 0 ?batch demo_exp demo_tf demo_nets Agent_epsilonDecay demo_draws
        "demo_agent 64" res ag'] l
    by simp
  from 0 1 2 l show ?thesis by auto
qed

text \<open>
  C1. Let \<open>n\<close> be the variables after the critic and the actor update of a learning phase
  that returns. The learning phase ends with one synchronization step
  (\<open>updateTargetNetworks\<close>) on \<open>n\<close>, which leaves the online networks as they are in \<open>n\<close>, keeps
  the shape of the target networks, and sets every element of every tensor of the actor
  target to \<open>0.005 * online + (1 - 0.005) * target\<close> of the actor pair in \<open>n\<close>, and every
  element of the critic target to the same combination of the critic pair. Nothing guards
  the update: it is part of every learning phase.
\<close>

theorem target_sync_after_learning:
  assumes "learn decay tf us ag = Some (res, ag')"
    and "n = snd (snd (gradientSteps tf (sampleBatch us (replayBuffer ag)) ag))"
  shows "updateTargetNetworks n = Some (nets ag') \<and>
         actor (nets ag') = actor n \<and> critic (nets ag') = critic n \<and>
         map length (targetActor (nets ag')) = map length (targetActor n) \<and>
         map length (targetCritic (nets ag')) = map length (targetCritic n) \<and>
         (\<forall>i<length (targetActor n). \<forall>j<length (targetActor n ! i).
            targetActor (nets ag') ! i ! j = 0.005 * actor n ! i ! j + (1 - 0.005) * targetActor n ! i ! j) \<and>
         (\<forall>i<length (targetCritic n). \<forall>j<length (targetCritic n ! i).
            targetCritic (nets ag') ! i ! j = 0.005 * critic n ! i ! j + (1 - 0.005) * targetCritic n ! i ! j)"
proof -
  have u: "updateTargetNetworks n = Some (nets ag')"
    using learn_Some [OF assms(1)] assms(2) by simp
  note s = updateTargetNetworks_Some [OF u]
  have a: "update (actor n) (targetActor n) = Some (targetActor (nets ag'))"
    and c: "update (critic n) (targetCritic n) = Some (targetCritic (nets ag'))"
    using s by simp_all
  have la: "map length (targetActor (nets ag')) = map length (targetActor n)"
    using update_Some [OF update_shapes [OF a]] a by auto
  have lc: "map length (targetCritic (nets ag')) = map length (targetCritic n)"
    using update_Some [OF update_shapes [OF c]] c by auto
  have ea: "\<forall>i<length (targetActor n). \<forall>j<length (targetActor n ! i).
            targetActor (nets ag') ! i ! j = 0.005 * actor n ! i ! j + (1 - 0.005) * targetActor n ! i ! j"
    using update_elem [OF a] by (simp add: tau_def)
  have ec: "\<forall>i<length (targetCritic n). \<forall>j<length (targetCritic n ! i).
            targetCritic (nets ag') ! i ! j = 0.005 * critic n ! i ! j + (1 - 0.005) * targetCritic n ! i ! j"
    using update_elem [OF c] by (simp add: tau_def)
  from u s la lc ea ec show ?thesis by simp
qed

text \<open>
  On the synthetic networks: the optimizer has taken the actor from \<open>[[1, 2]]\<close> to
  \<open>[[3, 4]]\<close>, and the targets \<open>[[3, 5]]\<close> and \<open>[[8]]\<close> move by 0.005 towards the online
  values.
\<close>

theorem target_sync_after_learning_witness:
  "\<exists>res ag'. learn Agent_epsilonDecay demo_tf demo_draws (demo_agent 64) = Some (res, ag') \<and>
     actor (nets ag') = [[3, 4]] \<and> critic (nets ag') = [[4]] \<and>
     targetActor (nets ag') ! 0 ! 0 = 0.005 * 3 + (1 - 0.005) * 3 \<and>
     targetActor (nets ag') ! 0 ! 1 = 0.005 * 4 + (1 - 0.005) * 5 \<and>
     targetCritic (nets ag') ! 0 ! 0 = 0.005 * 4 + (1 - 0.005) * 8"
proof -
  obtain res ag' where l: "learn Agent_epsilonDecay demo_tf demo_draws (demo_agent 64) = Some (res, ag')"
    using demo_learn_succeeds [OF demo_agent_fields(1)] by blast
  have n: "snd (snd (gradientSteps demo_tf (sampleBatch demo_draws (replayBuffer (demo_agent 64))) (demo_agent 64)))
             = demo_nets\<lparr>actor := [[3, 4]]\<rparr>"
    by (rule demo_gradientSteps [OF demo_agent_fields(1)])
  show ?thesis
    using target_sync_after_learning [OF l n [symmetric]] l
    by (simp add: demo_nets_def)
qed

text \<open>
  C9. On every tick of \<open>DDPGSimulator.trainStep\<close> with a draw in \<open>[0, 1)\<close>, the physics runs
  on an action \<open>a\<close> with \<open>-1 \<le> a \<le> 1\<close>, the action stored in the replay buffer: the random
  action in warmup, the clamped sum of actor output and noise afterwards. The action of
  \<open>DDPGAgent.getAction\<close> with noise is clamped to \<open>[-1, 1]\<close> too; without noise it is the
  output of the actor (whose output layer is a tanh).
\<close>

theorem action_in_range:
  assumes "0 \<le> u" "u < 1" "Sim_trainStep tf u us cs sim = Some (out, sim')"
  shows "\<exists>a. - 1 \<le> a \<and> a \<le> 1 \<and> nextState out = fst (Sim_physics cs a) \<and>
           reward (metric out) = fst (snd (Sim_physics cs a)) \<and>
           exp_a (last (replayBuffer sim')) = [a] \<and>
           - 1 \<le> fst (Agent_getAction tf sv True u ag) \<and> fst (Agent_getAction tf sv True u ag) \<le> 1 \<and>
           fst (Agent_getAction tf sv False u ag) = actorPredict tf (actor (nets ag)) sv"
proof -
  define a where "a = Sim_selectAction tf (Sim_getStateVector cs) u (sim\<lparr>stepCount := stepCount sim + 1\<rparr>)"
  define e where "e = \<lparr>exp_s = Sim_getStateVector cs, exp_a = [a], exp_r = fst (snd (Sim_physics cs a)),
              exp_ns = Sim_getStateVector (fst (Sim_physics cs a)), exp_d = snd (snd (Sim_physics cs a))\<rparr>"
  define sim2 where "sim2 = storeExperience e (sim\<lparr>stepCount := stepCount sim + 1\<rparr>)"
  note s = Sim_trainStep_Some [OF assms(3) a_def e_def sim2_def]
  have r: "- 1 \<le> a \<and> a \<le> 1"
    unfolding a_def using Sim_selectAction_range [OF assms(1,2)] by simp
  have "last (replayBuffer sim') = e" using s by (simp add: sim2_def last_storeExperience)
  then have "exp_a (last (replayBuffer sim')) = [a]" by (simp add: e_def)
  moreover have "fst (Agent_getAction tf sv False u ag) = actorPredict tf (actor (nets ag)) sv"
    by (simp add: Agent_getAction_def Let_def)
  ultimately show ?thesis using r s Agent_getAction_noise_range [of tf sv u ag] by blast
qed

text \<open>
  A tick after warmup, with the draw 0.9.
\<close>

theorem action_in_range_witness:
  "(0::real) \<le> 0.9 \<and> (0.9::real) < 1 \<and>
   (\<exists>out sim'. Sim_trainStep demo_tf 0.9 demo_draws demo_state (demo_sim 250) = Some (out, sim') \<and>
      (\<exists>a. - 1 \<le> a \<and> a \<le> 1 \<and> nextState out = fst (Sim_physics demo_state a) \<and>
           exp_a (last (replayBuffer sim')) = [a]))"
proof -
  obtain out sim' where t: "Sim_trainStep demo_tf 0.9 demo_draws demo_state (demo_sim 250) = Some (out, sim')"
    using demo_tick_250 [of "0.9"] by blast
  have "\<exists>a. - 1 \<le> a \<and> a \<le> 1 \<and> nextState out = fst (Sim_physics demo_state a) \<and>
           exp_a (last (replayBuffer sim')) = [a]"
    using action_in_range [of "0.9", OF _ _ t] by auto
  with t show ?thesis by auto
qed

text \<open>
  C3, as the code has it. \<open>DDPGAgent.train\<close>: with fewer than 64 transitions in the buffer
  it returns zero losses and changes nothing; with at least 64 it runs the learning phase.
  The sampling loop returns exactly 64 transitions, all of them transitions of the buffer
  when the draws are in \<open>[0, 1)\<close>. \<open>DDPGSimulator.trainStep\<close>: when the buffer holds fewer
  than 64 transitions after the store, or the step counter is at most 250 (warmup), the
  tick reports zero losses and leaves the networks and epsilon unchanged; when the buffer
  holds more than 64 and the step counter is above 250, the learning phase runs on the
  object after the store and its losses are the ones reported.
\<close>

theorem learning_guard:
  "(length (replayBuffer ag) < 64 \<longrightarrow>
      Agent_train tf us ag = Some (\<lparr>tr_actorLoss = 0, tr_criticLoss = 0, tr_avgQ = 0\<rparr>, ag)) \<and>
   (64 \<le> length (replayBuffer ag) \<longrightarrow>
      Agent_train tf us ag = learn Agent_epsilonDecay tf us ag) \<and>
   length (sampleBatch us buf) = 64 \<and>
   (buf \<noteq> [] \<and> (\<forall>i<64. 0 \<le> us i \<and> us i < 1) \<longrightarrow> set (sampleBatch us buf) \<subseteq> set buf) \<and>
   (Sim_trainStep tf u us cs sim = Some (out, sim') \<longrightarrow>
      (length (replayBuffer sim') < 64 \<or> stepCount sim' \<le> 250 \<longrightarrow>
         criticLoss (metric out) = 0 \<and> actorLoss (metric out) = 0 \<and> qValue (metric out) = 0 \<and>
         nets sim' = nets sim \<and> epsilon sim' = epsilon sim) \<and>
      (64 < length (replayBuffer sim') \<and> 250 < stepCount sim' \<longrightarrow>
         (\<exists>sim2. nets sim2 = nets sim \<and> epsilon sim2 = epsilon sim \<and>
            replayBuffer sim2 = replayBuffer sim' \<and>
            learn Sim_epsilonDecay tf us sim2 =
              Some (\<lparr>tr_actorLoss = actorLoss (metric out), tr_criticLoss = criticLoss (metric out),
                      tr_avgQ = qValue (metric out)\<rparr>, sim'))))"
proof -
  have 3: "buf \<noteq> [] \<and> (\<forall>i<64. 0 \<le> us i \<and> us i < 1) \<longrightarrow> set (sampleBatch us buf) \<subseteq> set buf"
    using sampleBatch_subset [of buf us] by (simp add: batchSize_def)
  have 4: "length (sampleBatch us buf) = 64" by (simp add: sampleBatch_length batchSize_def)
  show ?thesis using 3 4 Sim_trainStep_guard [of tf u us cs sim out sim']
    by (simp add: Agent_train_cases)
qed

text \<open>
  An agent with 63 and one with 64 transitions; tick 100 and tick 251 of a simulator.
\<close>

theorem learning_guard_witness:
  "length (replayBuffer (demo_agent 63)) < 64 \<and>
   Agent_train demo_tf demo_draws (demo_agent 63) =
     Some (\<lparr>tr_actorLoss = 0, tr_criticLoss = 0, tr_avgQ = 0\<rparr>, demo_agent 63) \<and>
   64 \<le> length (replayBuffer (demo_agent 64)) \<and>
   Agent_train demo_tf demo_draws (demo_agent 64) = learn Agent_epsilonDecay demo_tf demo_draws (demo_agent 64) \<and>
   set (sampleBatch demo_draws (replicate 64 demo_exp)) \<subseteq> set (replicate 64 demo_exp) \<and>
   (\<exists>out sim'. Sim_trainStep demo_tf 0.5 demo_draws demo_state (demo_sim 99) = Some (out, sim') \<and>
      stepCount sim' \<le> 250 \<and> criticLoss (metric out) = 0 \<and> actorLoss (metric out) = 0 \<and>
      epsilon sim' = epsilon (demo_sim 99)) \<and>
   (\<exists>out sim'. Sim_trainStep demo_tf 0.5 demo_draws demo_state (demo_sim 250) = Some (out, sim') \<and>
      64 < length (replayBuffer sim') \<and> 250 < stepCount sim' \<and>
      (\<exists>sim2. nets sim2 = nets (demo_sim 250) \<and>
         learn Sim_epsilonDecay demo_tf demo_draws sim2 =
           Some (\<lparr>tr_actorLoss = actorLoss (metric out), tr_criticLoss = criticLoss (metric out),
                   tr_avgQ = qValue (metric out)\<rparr>, sim')))"
proof -
  have a1: "length (replayBuffer (demo_agent 63)) < 64" and a2: "64 \<le> length (replayBuffer (demo_agent 64))"
    by (simp_all add: demo_agent_fields)
  obtain o0 s0 where "Sim_trainStep demo_tf 0.5 demo_draws demo_state (demo_sim 99) = Some (o0, s0)"
    using demo_tick_99 by simp
  note g63 = learning_guard [of "demo_agent 63" demo_tf demo_draws "replicate 64 demo_exp"
      "0.5" demo_state "demo_sim 99" o0 s0]
  have d: "replicate 64 demo_exp \<noteq> [] \<and> (\<forall>i<64. 0 \<le> demo_draws i \<and> demo_draws i < 1)"
    by (simp add: demo_draws_def)
  have 1: "Agent_train demo_tf demo_draws (demo_agent 63) =
     Some (\<lparr>tr_actorLoss = 0, tr_criticLoss = 0, tr_avgQ = 0\<rparr>, demo_agent 63)"
    using g63 a1 by blast
  have 3: "set (sampleBatch demo_draws (replicate 64 demo_exp)) \<subseteq> set (replicate 64 demo_exp)"
    using g63 d by blast
  obtain o1 s1 where t1: "Sim_trainStep demo_tf 0.5 demo_draws demo_state (demo_sim 99) = Some (o1, s1)"
    and c1: "stepCount s1 = 100"
    using demo_tick_99 by simp
  have 2: "Agent_train demo_tf demo_draws (demo_agent 64) = learn Agent_epsilonDecay demo_tf demo_draws (demo_agent 64)"
    using learning_guard [of "demo_agent 64" demo_tf demo_draws "[]" "0.5" demo_state "demo_sim 99" o1 s1] a2
    by blast
  have 4: "stepCount s1 \<le> 250 \<and> criticLoss (metric o1) = 0 \<and> actorLoss (metric o1) = 0 \<and>
      epsilon s1 = epsilon (demo_sim 99)"
    using learning_guard [of "demo_agent 63" demo_tf demo_draws "[]" "0.5" demo_state "demo_sim 99" o1 s1] t1 c1
    by simp
  obtain o2 s2 where t2: "Sim_trainStep demo_tf 0.5 demo_draws demo_state (demo_sim 250) = Some (o2, s2)"
    and c2: "length (replayBuffer s2) = 251" "stepCount s2 = 251"
    using demo_tick_250 [of "0.5"] by blast
  have 5: "\<exists>sim2. nets sim2 = nets (demo_sim 250) \<and>
         learn Sim_epsilonDecay demo_tf demo_draws sim2 =
           Some (\<lparr>tr_actorLoss = actorLoss (metric o2), tr_criticLoss = criticLoss (metric o2),
                   tr_avgQ = qValue (metric o2)\<rparr>, s2)"
    using learning_guard [of "demo_agent 63" demo_tf demo_draws "[]" "0.5" demo_state "demo_sim 250" o2 s2] t2 c2
    by auto
  have 6: "\<exists>out sim'. Sim_trainStep demo_tf 0.5 demo_draws demo_state (demo_sim 99) = Some (out, sim') \<and>
      stepCount sim' \<le> 250 \<and> criticLoss (metric out) = 0 \<and> actorLoss (metric out) = 0 \<and>
      epsilon sim' = epsilon (demo_sim 99)"
    using t1 4 by blast
  have 7: "\<exists>out sim'. Sim_trainStep demo_tf 0.5 demo_draws demo_state (demo_sim 250) = Some (out, sim') \<and>
      64 < length (replayBuffer sim') \<and> 250 < stepCount sim' \<and>
      (\<exists>sim2. nets sim2 = nets (demo_sim 250) \<and>
         learn Sim_epsilonDecay demo_tf demo_draws sim2 =
           Some (\<lparr>tr_actorLoss = actorLoss (metric out), tr_criticLoss = criticLoss (metric out),
                   tr_avgQ = qValue (metric out)\<rparr>, sim'))"
    using t2 c2 5 by (intro exI [of _ o2] exI [of _ s2]) simp
  show ?thesis using a1 a2 1 2 3 6 7 by (intro conjI) assumption+
qed

text \<open>
  C3 as stated fails in \<open>DDPGSimulator.trainStep\<close>: at tick 100 the buffer holds 99
  transitions before the store and 100 after it, at least 64, and the tick still reports
  zero losses and changes only the step counter and the buffer (epsilon stays 1, the
  networks stay as they are): the learning phase waits for the end of the warmup.
\<close>

theorem learning_skipped_in_warmup:
  "64 \<le> length (replayBuffer (demo_sim 99)) \<and>
   Sim_trainStep demo_tf 0.5 demo_draws demo_state (demo_sim 99) =
     Some (\<lparr>nextState = \<lparr>position = 0.3, velocity = 0, target = - 0.2\<rparr>,
            metric = \<lparr>step = 100, reward = - 0.5, criticLoss = 0, actorLoss = 0, qValue = 0\<rparr>,
            noiseLevel = 1\<rparr>,
           (demo_sim 99)\<lparr>stepCount := 100,
                         replayBuffer := replicate 99 demo_exp @
                           [\<lparr>exp_s = [0.3, 0, - 0.5], exp_a = [0], exp_r = - 0.5,
                             exp_ns = [0.3, 0, - 0.5], exp_d = False\<rparr>]\<rparr>)"
  using demo_tick_99 by (simp add: demo_sim_fields)

section \<open>The exploration schedule\<close>

lemma decayEpsilon_le:
  assumes "0 \<le> d" "d \<le> 1" "0 \<le> eps"
  shows "decayEpsilon d eps \<le> eps \<and> 0 \<le> decayEpsilon d eps"
  using assms by (simp add: decayEpsilon_def mult_left_le)

lemma decayEpsilon_iterate:
  assumes "0 \<le> d" "d \<le> 1" "0 \<le> eps"
  shows "epsilonMin < eps * d ^ n \<Longrightarrow> (decayEpsilon d ^^ Suc n) eps = eps * d ^ Suc n"
proof (induction n)
  case 0
  then show ?case by (simp add: decayEpsilon_def)
next
  case (Suc n)
  have "eps * d ^ Suc n \<le> eps * d ^ n"
    using assms by (simp add: mult_left_le mult.assoc mult_left_mono mult_left_le_one_le)
  with Suc.prems have "epsilonMin < eps * d ^ n" by simp
  then have "(decayEpsilon d ^^ Suc n) eps = eps * d ^ Suc n" by (rule Suc.IH)
  then have "(decayEpsilon d ^^ Suc (Suc n)) eps = decayEpsilon d (eps * d ^ Suc n)" by simp
  also have "\<dots> = eps * d ^ Suc n * d" using Suc.prems by (simp add: decayEpsilon_def)
  finally show ?case by (simp add: mult.assoc mult.commute)
qed

text \<open>
  Bounds on powers of the decay rates, by repeated squaring on twelve decimals.
\<close>

lemma pow_sq_lower:
  fixes a :: real
  assumes "l \<le> a ^ n" "0 \<le> l" "l' \<le> l * l"
  shows "l' \<le> a ^ (2 * n)"
proof -
  have "l * l \<le> a ^ n * a ^ n" using assms(1,2) by (intro mult_mono) auto
  also have "\<dots> = a ^ (2 * n)" by (simp add: power_add mult_2)
  finally show ?thesis using assms(3) by simp
qed

lemma pow_sq_upper:
  fixes a :: real
  assumes "a ^ n \<le> u" "0 \<le> a" "u * u \<le> u'"
  shows "a ^ (2 * n) \<le> u'"
proof -
  have "0 \<le> a ^ n" using assms(2) by simp
  then have "a ^ n * a ^ n \<le> u * u" using assms(1) by (intro mult_mono) auto
  moreover have "a ^ n * a ^ n = a ^ (2 * n)" by (simp add: power_add mult_2)
  ultimately show ?thesis using assms(3) by simp
qed

lemma pow_mul_lower:
  fixes a :: real
  assumes "l1 \<le> a ^ m" "l2 \<le> a ^ n" "0 \<le> l1" "0 \<le> l2" "l \<le> l1 * l2"
  shows "l \<le> a ^ (m + n)"
proof -
  have "l1 * l2 \<le> a ^ m * a ^ n" using assms(1-4) by (intro mult_mono) auto
  then show ?thesis using assms(5) by (simp add: power_add)
qed

lemma pow_mul_upper:
  fixes a :: real
  assumes "a ^ m \<le> u1" "a ^ n \<le> u2" "0 \<le> a" "u1 * u2 \<le> u"
  shows "a ^ (m + n) \<le> u"
proof -
  have "0 \<le> a ^ m" "0 \<le> a ^ n" using assms(3) by simp_all
  then have "a ^ m * a ^ n \<le> u1 * u2" using assms(1,2) by (intro mult_mono) auto
  then show ?thesis using assms(4) by (simp add: power_add)
qed

lemma Sim_decay_powers:
  "(0.05::real) < 0.997 ^ 997 \<and> (0.997::real) ^ 998 < 0.05"
proof -
  define a :: real where "a = 0.997"
  have a0: "0 \<le> a" by (simp add: a_def)
  have l1: "0.997 \<le> a ^ 1" and u1: "a ^ 1 \<le> 0.997" by (simp_all add: a_def)
  have l2: "0.994009000000 \<le> a ^ 2" using pow_sq_lower [OF l1, of "0.994009000000"] by simp
  have u2: "a ^ 2 \<le> 0.994009000000" using pow_sq_upper [OF u1 a0, of "0.994009000000"] by simp
  have l4: "0.988053892081 \<le> a ^ 4" using pow_sq_lower [OF l2, of "0.988053892081"] by simp
  have u4: "a ^ 4 \<le> 0.988053892081" using pow_sq_upper [OF u2 a0, of "0.988053892081"] by simp
  have l8: "0.976250493656 \<le> a ^ 8" using pow_sq_lower [OF l4, of "0.976250493656"] by simp
  have u8: "a ^ 8 \<le> 0.976250493657" using pow_sq_upper [OF u4 a0, of "0.976250493657"] by simp
  have l16: "0.953065026363 \<le> a ^ 16" using pow_sq_lower [OF l8, of "0.953065026363"] by simp
  have u16: "a ^ 16 \<le> 0.953065026366" using pow_sq_upper [OF u8 a0, of "0.953065026366"] by simp
  have l32: "0.908332944476 \<le> a ^ 32" using pow_sq_lower [OF l16, of "0.908332944476"] by simp
  have u32: "a ^ 32 \<le> 0.908332944483" using pow_sq_upper [OF u16 a0, of "0.908332944483"] by simp
  have l64: "0.825068738020 \<le> a ^ 64" using pow_sq_lower [OF l32, of "0.825068738020"] by simp
  have u64: "a ^ 64 \<le> 0.825068738034" using pow_sq_upper [OF u32 a0, of "0.825068738034"] by simp
  have l128: "0.680738422457 \<le> a ^ 128" using pow_sq_lower [OF l64, of "0.680738422457"] by simp
  have u128: "a ^ 128 \<le> 0.680738422482" using pow_sq_upper [OF u64 a0, of "0.680738422482"] by simp
  have l256: "0.463404799809 \<le> a ^ 256" using pow_sq_lower [OF l128, of "0.463404799809"] by simp
  have u256: "a ^ 256 \<le> 0.463404799844" using pow_sq_upper [OF u128 a0, of "0.463404799844"] by simp
  have l512: "0.214744008486 \<le> a ^ 512" using pow_sq_lower [OF l256, of "0.214744008486"] by simp
  have u512: "a ^ 512 \<le> 0.214744008519" using pow_sq_upper [OF u256 a0, of "0.214744008519"] by simp
  have cl768: "0.099513404262 \<le> a ^ 768" using pow_mul_lower [OF l512 l256, of "0.099513404262"] by simp
  have cl896: "0.067742597830 \<le> a ^ 896" using pow_mul_lower [OF cl768 l128, of "0.067742597830"] by simp
  have cl960: "0.055892299701 \<le> a ^ 960" using pow_mul_lower [OF cl896 l64, of "0.055892299701"] by simp
  have cl992: "0.050768817160 \<le> a ^ 992" using pow_mul_lower [OF cl960 l32, of "0.050768817160"] by simp
  have cl996: "0.050162327391 \<le> a ^ 996" using pow_mul_lower [OF cl992 l4, of "0.050162327391"] by simp
  have cl997: "0.050011840408 \<le> a ^ 997" using pow_mul_lower [OF cl996 l1, of "0.050011840408"] by simp
  have cu768: "a ^ 768 \<le> 0.099513404286" using pow_mul_upper [OF u512 u256 a0, of "0.099513404286"] by simp
  have cu896: "a ^ 896 \<le> 0.067742597850" using pow_mul_upper [OF cu768 u128 a0, of "0.067742597850"] by simp
  have cu960: "a ^ 960 \<le> 0.055892299720" using pow_mul_upper [OF cu896 u64 a0, of "0.055892299720"] by simp
  have cu992: "a ^ 992 \<le> 0.050768817179" using pow_mul_upper [OF cu960 u32 a0, of "0.050768817179"] by simp
  have cu996: "a ^ 996 \<le> 0.050162327411" using pow_mul_upper [OF cu992 u4 a0, of "0.050162327411"] by simp
  have cu998: "a ^ 998 \<le> 0.049861804908" using pow_mul_upper [OF cu996 u2 a0, of "0.049861804908"] by simp
  have "(0.05::real) < a ^ 997" using cl997 by simp
  moreover have "a ^ 998 < (0.05::real)" using cu998 by simp
  ultimately show ?thesis by (simp add: a_def)
qed

lemma Agent_decay_powers:
  "(0.05::real) < 0.9975 ^ 1196 \<and> (0.9975::real) ^ 1197 < 0.05"
proof -
  define a :: real where "a = 0.9975"
  have a0: "0 \<le> a" by (simp add: a_def)
  have l1: "0.9975 \<le> a ^ 1" and u1: "a ^ 1 \<le> 0.9975" by (simp_all add: a_def)
  have l2: "0.995006250000 \<le> a ^ 2" using pow_sq_lower [OF l1, of "0.995006250000"] by simp
  have u2: "a ^ 2 \<le> 0.995006250000" using pow_sq_upper [OF u1 a0, of "0.995006250000"] by simp
  have l4: "0.990037437539 \<le> a ^ 4" using pow_sq_lower [OF l2, of "0.990037437539"] by simp
  have u4: "a ^ 4 \<le> 0.990037437540" using pow_sq_upper [OF u2 a0, of "0.990037437540"] by simp
  have l8: "0.980174127728 \<le> a ^ 8" using pow_sq_lower [OF l4, of "0.980174127728"] by simp
  have u8: "a ^ 8 \<le> 0.980174127731" using pow_sq_upper [OF u4 a0, of "0.980174127731"] by simp
  have l16: "0.960741320667 \<le> a ^ 16" using pow_sq_lower [OF l8, of "0.960741320667"] by simp
  have u16: "a ^ 16 \<le> 0.960741320674" using pow_sq_upper [OF u8 a0, of "0.960741320674"] by simp
  have l32: "0.923023885236 \<le> a ^ 32" using pow_sq_lower [OF l16, of "0.923023885236"] by simp
  have u32: "a ^ 32 \<le> 0.923023885251" using pow_sq_upper [OF u16 a0, of "0.923023885251"] by simp
  have l64: "0.851973092716 \<le> a ^ 64" using pow_sq_lower [OF l32, of "0.851973092716"] by simp
  have u64: "a ^ 64 \<le> 0.851973092744" using pow_sq_upper [OF u32 a0, of "0.851973092744"] by simp
  have l128: "0.725858150712 \<le> a ^ 128" using pow_sq_lower [OF l64, of "0.725858150712"] by simp
  have u128: "a ^ 128 \<le> 0.725858150760" using pow_sq_upper [OF u64 a0, of "0.725858150760"] by simp
  have l256: "0.526870054955 \<le> a ^ 256" using pow_sq_lower [OF l128, of "0.526870054955"] by simp
  have u256: "a ^ 256 \<le> 0.526870055025" using pow_sq_upper [OF u128 a0, of "0.526870055025"] by simp
  have l512: "0.277592054808 \<le> a ^ 512" using pow_sq_lower [OF l256, of "0.277592054808"] by simp
  have u512: "a ^ 512 \<le> 0.277592054883" using pow_sq_upper [OF u256 a0, of "0.277592054883"] by simp
  have l1024: "0.077057348892 \<le> a ^ 1024" using pow_sq_lower [OF l512, of "0.077057348892"] by simp
  have u1024: "a ^ 1024 \<le> 0.077057348935" using pow_sq_upper [OF u512 a0, of "0.077057348935"] by simp
  have cl1152: "0.055932704765 \<le> a ^ 1152" using pow_mul_lower [OF l1024 l128, of "0.055932704765"] by simp
  have cl1184: "0.051627222463 \<le> a ^ 1184" using pow_mul_lower [OF cl1152 l32, of "0.051627222463"] by simp
  have cl1192: "0.050603667744 \<le> a ^ 1192" using pow_mul_lower [OF cl1184 l8, of "0.050603667744"] by simp
  have cl1196: "0.050099525543 \<le> a ^ 1196" using pow_mul_lower [OF cl1192 l4, of "0.050099525543"] by simp
  have cu1152: "a ^ 1152 \<le> 0.055932704801" using pow_mul_upper [OF u1024 u128 a0, of "0.055932704801"] by simp
  have cu1184: "a ^ 1184 \<le> 0.051627222499" using pow_mul_upper [OF cu1152 u32 a0, of "0.051627222499"] by simp
  have cu1192: "a ^ 1192 \<le> 0.050603667781" using pow_mul_upper [OF cu1184 u8 a0, of "0.050603667781"] by simp
  have cu1196: "a ^ 1196 \<le> 0.050099525581" using pow_mul_upper [OF cu1192 u4 a0, of "0.050099525581"] by simp
  have cu1197: "a ^ 1197 \<le> 0.049974276768" using pow_mul_upper [OF cu1196 u1 a0, of "0.049974276768"] by simp
  have "(0.05::real) < a ^ 1196" using cl1196 by simp
  moreover have "a ^ 1197 < (0.05::real)" using cu1197 by simp
  ultimately show ?thesis by (simp add: a_def)
qed

lemma Sim_epsilon_998:
  "(decayEpsilon Sim_epsilonDecay ^^ 998) 1 = 0.997 ^ 998 \<and>
   (decayEpsilon Sim_epsilonDecay ^^ 998) 1 < epsilonMin"
proof -
  have "(decayEpsilon Sim_epsilonDecay ^^ Suc 997) 1 = 1 * Sim_epsilonDecay ^ Suc 997"
    using Sim_decay_powers
    by (intro decayEpsilon_iterate) (simp_all add: Sim_epsilonDecay_def epsilonMin_def)
  then have s: "(decayEpsilon Sim_epsilonDecay ^^ 998) 1 = 0.997 ^ 998"
    by (simp add: Sim_epsilonDecay_def)
  then show ?thesis using Sim_decay_powers by (simp add: epsilonMin_def)
qed

lemma Agent_epsilon_1197:
  "(decayEpsilon Agent_epsilonDecay ^^ 1197) 1 = 0.9975 ^ 1197 \<and>
   (decayEpsilon Agent_epsilonDecay ^^ 1197) 1 < epsilonMin"
proof -
  have "(decayEpsilon Agent_epsilonDecay ^^ Suc 1196) 1 = 1 * Agent_epsilonDecay ^ Suc 1196"
    using Agent_decay_powers
    by (intro decayEpsilon_iterate) (simp_all add: Agent_epsilonDecay_def epsilonMin_def)
  then have s: "(decayEpsilon Agent_epsilonDecay ^^ 1197) 1 = 0.9975 ^ 1197"
    by (simp add: Agent_epsilonDecay_def)
  then show ?thesis using Agent_decay_powers by (simp add: epsilonMin_def)
qed

text \<open>
  C2 fails on the code. Starting from epsilon = 1.0, every learning update applies
  \<open>decayEpsilon\<close>; the guard \<open>epsilon > epsilonMin\<close> is tested before the multiplication and
  the product is not clamped. In \<open>DDPGSimulator\<close> the 998th update takes epsilon to
  \<open>0.997 ^ 998\<close>, below the floor 0.05, which is not \<open>max epsilonMin (epsilon * decayRate)\<close>;
  in \<open>DDPGAgent\<close> the 1197th update takes it to \<open>0.9975 ^ 1197\<close>, below 0.05 as well.
\<close>

theorem epsilon_below_floor:
  "(decayEpsilon Sim_epsilonDecay ^^ 998) 1 = 0.997 ^ 998 \<and>
   (decayEpsilon Sim_epsilonDecay ^^ 998) 1 < epsilonMin \<and>
   (decayEpsilon Sim_epsilonDecay ^^ 998) 1 \<noteq>
     max epsilonMin ((decayEpsilon Sim_epsilonDecay ^^ 997) 1 * Sim_epsilonDecay) \<and>
   (decayEpsilon Agent_epsilonDecay ^^ 1197) 1 = 0.9975 ^ 1197 \<and>
   (decayEpsilon Agent_epsilonDecay ^^ 1197) 1 < epsilonMin"
  using Sim_epsilon_998 Agent_epsilon_1197 by (simp add: max_def)

text \<open>
  What holds of the schedule: a tick changes epsilon by one \<open>decayEpsilon\<close> when the learning
  phase runs and not at all otherwise, and epsilon never increases. In a run of the
  application the learning phase runs on every tick after the 250th, so that the run
  reaches the value below the floor at tick 1248.
\<close>

lemma epsilon_nonincreasing_tick:
  assumes "Sim_trainStep tf u us cs sim = Some (out, sim')" "0 \<le> epsilon sim"
  shows "epsilon sim' \<le> epsilon sim \<and> 0 \<le> epsilon sim'"
  using decayEpsilon_le [of Sim_epsilonDecay "epsilon sim"] assms(2)
  unfolding Sim_trainStep_epsilon [OF assms(1)]
  by (simp add: Sim_epsilonDecay_def)

lemma epsilon_unchanged_without_learning:
  assumes "Sim_trainStep tf u us cs sim = Some (out, sim')"
    and "stepCount sim' \<le> warmupSteps \<or> length (replayBuffer sim') \<le> batchSize"
  shows "epsilon sim' = epsilon sim"
  using assms(2) unfolding Sim_trainStep_epsilon [OF assms(1)] by auto

lemma App_tick_invariant:
  assumes "App_tick tf u us u1 u2 app = Some app'"
    and "stepCount (simulatorRef app) = k"
    and "length (replayBuffer (simulatorRef app)) = min k bufferSize"
    and "epsilon (simulatorRef app) = (decayEpsilon Sim_epsilonDecay ^^ (k - warmupSteps)) 1"
  shows "stepCount (simulatorRef app') = Suc k \<and>
         length (replayBuffer (simulatorRef app')) = min (Suc k) bufferSize \<and>
         epsilon (simulatorRef app') = (decayEpsilon Sim_epsilonDecay ^^ (Suc k - warmupSteps)) 1"
proof -
  obtain out sim' where t: "Sim_trainStep tf u us (simStateRef app) (simulatorRef app) = Some (out, sim')"
    and a: "simulatorRef app' = sim'"
    using assms(1) by (auto simp: App_tick_def Let_def split: option.splits)
  note s = Sim_trainStep_Some [OF t refl refl refl]
  have c: "stepCount sim' = Suc k" using s assms(2) by simp
  have "length (replayBuffer (simulatorRef app\<lparr>stepCount := stepCount (simulatorRef app) + 1\<rparr>)) \<le> bufferSize"
    using assms(3) by simp
  from length_storeExperience [OF this] s assms(3)
  have l: "length (replayBuffer sim') = min (Suc k) bufferSize" by simp
  have g: "warmupSteps < stepCount sim' \<and> batchSize < length (replayBuffer sim') \<longleftrightarrow> warmupSteps \<le> k"
    unfolding c l by (auto simp: warmupSteps_def batchSize_def bufferSize_def)
  have eq: "epsilon sim' =
      (if warmupSteps \<le> k then decayEpsilon Sim_epsilonDecay (epsilon (simulatorRef app))
       else epsilon (simulatorRef app))"
    using Sim_trainStep_epsilon [OF t] unfolding g .
  have "epsilon sim' = (decayEpsilon Sim_epsilonDecay ^^ (Suc k - warmupSteps)) 1"
  proof (cases "warmupSteps \<le> k")
    case True
    then have "Suc k - warmupSteps = Suc (k - warmupSteps)" by (rule Suc_diff_le)
    then have "(decayEpsilon Sim_epsilonDecay ^^ (Suc k - warmupSteps)) 1 =
        decayEpsilon Sim_epsilonDecay ((decayEpsilon Sim_epsilonDecay ^^ (k - warmupSteps)) 1)"
      by (simp only: funpow.simps o_apply)
    with True show ?thesis by (simp only: eq assms(4) if_True)
  next
    case False
    then have z: "Suc k - warmupSteps = 0" "k - warmupSteps = 0" by simp_all
    from False show ?thesis by (simp only: eq assms(4) z if_False)
  qed
  with c l a show ?thesis by simp
qed

lemma App_run_invariant:
  assumes "App_run tf ds app = Some app'"
    and "stepCount (simulatorRef app) = k"
    and "length (replayBuffer (simulatorRef app)) = min k bufferSize"
    and "epsilon (simulatorRef app) = (decayEpsilon Sim_epsilonDecay ^^ (k - warmupSteps)) 1"
  shows "stepCount (simulatorRef app') = k + length ds \<and>
         length (replayBuffer (simulatorRef app')) = min (k + length ds) bufferSize \<and>
         epsilon (simulatorRef app') = (decayEpsilon Sim_epsilonDecay ^^ (k + length ds - warmupSteps)) 1"
  using assms
proof (induction ds arbitrary: app k)
  case Nil
  then show ?case by simp
next
  case (Cons d ds)
  obtain u us u1 u2 where d: "d = (u, us, u1, u2)" by (cases d) auto
  from Cons.prems(1) obtain app1 where t: "App_tick tf u us u1 u2 app = Some app1"
    and r: "App_run tf ds app1 = Some app'"
    by (auto simp: d split: option.splits)
  note i = App_tick_invariant [OF t Cons.prems(2,3,4)]
  from Cons.IH [OF r, of "Suc k"] i show ?case by simp
qed

lemma App_run_from_init:
  assumes "App_run tf ds (App_initSimulator n ao co u1 u2) = Some app"
  shows "stepCount (simulatorRef app) = length ds \<and>
         length (replayBuffer (simulatorRef app)) = min (length ds) bufferSize \<and>
         epsilon (simulatorRef app) = (decayEpsilon Sim_epsilonDecay ^^ (length ds - warmupSteps)) 1"
  using App_run_invariant [OF assms, of 0]
  by (simp add: App_initSimulator_def Sim_new_def)

lemma App_run_reaches_violation:
  assumes "App_run tf ds (App_initSimulator n ao co u1 u2) = Some app" "length ds = 1248"
  shows "epsilon (simulatorRef app) < epsilonMin"
proof -
  have "epsilon (simulatorRef app) = (decayEpsilon Sim_epsilonDecay ^^ (1248 - warmupSteps)) 1"
    using App_run_from_init [OF assms(1)] assms(2) by simp
  also have "1248 - warmupSteps = 998" by (simp add: warmupSteps_def)
  finally show ?thesis using Sim_epsilon_998 by simp
qed

section \<open>Ticks and runs return\<close>

text \<open>
  The model returns \<open>None\<close> only for an exception of tfjs in the target update. With an
  optimizer that keeps the shapes of the variables, as \<open>applyGradients\<close> does, every
  learning phase, every tick and every run of ticks returns, from networks whose pairs
  have the same shapes.
\<close>

lemma updateTargetNetworks_sameShapes:
  assumes "sameShapes n"
  shows "\<exists>n'. updateTargetNetworks n = Some n' \<and> sameShapes n'"
proof -
  from assms have sa: "map length (actor n) = map length (targetActor n)"
    and sc: "map length (critic n) = map length (targetCritic n)"
    by (simp_all add: sameShapes_def)
  obtain ta where ta: "update (actor n) (targetActor n) = Some ta" "map length ta = map length (targetActor n)"
    using update_Some [OF sa] by blast
  obtain tc where tc: "update (critic n) (targetCritic n) = Some tc" "map length tc = map length (targetCritic n)"
    using update_Some [OF sc] by blast
  have "updateTargetNetworks n = Some (n\<lparr>targetActor := ta, targetCritic := tc\<rparr>)"
    by (simp add: updateTargetNetworks_def ta tc)
  moreover have "sameShapes (n\<lparr>targetActor := ta, targetCritic := tc\<rparr>)"
    using sa sc ta tc by (simp add: sameShapes_def)
  ultimately show ?thesis by blast
qed

lemma learn_returns:
  assumes keeps: "\<And>opt g n. sameShapes n \<Longrightarrow> sameShapes (snd (applyGradients tf opt g n))"
    and "sameShapes (nets ag)"
  shows "\<exists>res ag'. learn decay tf us ag = Some (res, ag') \<and> sameShapes (nets ag')"
proof -
  let ?g = "gradientSteps tf (sampleBatch us (replayBuffer ag)) ag"
  have "sameShapes (snd (fst ?g))" using assms by (simp add: gradientSteps_def Let_def)
  then have "sameShapes (snd (snd ?g))" using keeps by (simp add: gradientSteps_def Let_def)
  then obtain n' where n': "updateTargetNetworks (snd (snd ?g)) = Some n'" "sameShapes n'"
    using updateTargetNetworks_sameShapes by blast
  then show ?thesis by (cases ?g) (simp add: learn_def Let_def)
qed

lemma Sim_trainStep_returns:
  assumes keeps: "\<And>opt g n. sameShapes n \<Longrightarrow> sameShapes (snd (applyGradients tf opt g n))"
    and "sameShapes (nets sim)"
  shows "\<exists>out sim'. Sim_trainStep tf u us cs sim = Some (out, sim') \<and> sameShapes (nets sim')"
proof -
  define a where "a = Sim_selectAction tf (Sim_getStateVector cs) u (sim\<lparr>stepCount := stepCount sim + 1\<rparr>)"
  define e where "e = \<lparr>exp_s = Sim_getStateVector cs, exp_a = [a], exp_r = fst (snd (Sim_physics cs a)),
              exp_ns = Sim_getStateVector (fst (Sim_physics cs a)), exp_d = snd (snd (Sim_physics cs a))\<rparr>"
  define sim2 where "sim2 = storeExperience e (sim\<lparr>stepCount := stepCount sim + 1\<rparr>)"
  have n2: "sameShapes (nets sim2)" using assms(2) by (simp add: sim2_def nets_storeExperience)
  show ?thesis
  proof (cases "Sim_learns sim2")
    case True
    obtain res sim3 where "learn Sim_epsilonDecay tf us sim2 = Some (res, sim3)" "sameShapes (nets sim3)"
      using learn_returns [OF keeps n2] by blast
    with True show ?thesis unfolding Sim_trainStep_eq [OF a_def e_def sim2_def] by simp
  next
    case False
    with n2 show ?thesis unfolding Sim_trainStep_eq [OF a_def e_def sim2_def] by simp
  qed
qed

lemma App_run_returns:
  assumes keeps: "\<And>opt g n. sameShapes n \<Longrightarrow> sameShapes (snd (applyGradients tf opt g n))"
  shows "sameShapes (nets (simulatorRef app)) \<Longrightarrow> \<exists>app'. App_run tf ds app = Some app'"
proof (induction ds arbitrary: app)
  case Nil
  then show ?case by simp
next
  case (Cons d ds)
  obtain u us u1 u2 where d: "d = (u, us, u1, u2)" by (cases d) auto
  obtain out sim' where t: "Sim_trainStep tf u us (simStateRef app) (simulatorRef app) = Some (out, sim')"
    and s: "sameShapes (nets sim')"
    using Sim_trainStep_returns [OF keeps Cons.prems] by blast
  then obtain app1 where a: "App_tick tf u us u1 u2 app = Some app1" "simulatorRef app1 = sim'"
    by (simp add: App_tick_def Let_def)
  with s have "sameShapes (nets (simulatorRef app1))" by simp
  from Cons.IH [OF this] a show ?case by (simp add: d)
qed

text \<open>
  On the concrete inputs, the run of 1248 ticks returns, with epsilon below the floor.
\<close>

lemma demo_tf_keeps_shapes: "sameShapes n \<Longrightarrow> sameShapes (snd (applyGradients demo_tf opt g n))"
  by (simp add: demo_tf_def sameShapes_def comp_def)

lemma demo_run_reaches_violation:
  "\<exists>app. App_run demo_tf (replicate 1248 (0.5, demo_draws, 0.5, 0.5))
            (App_initSimulator demo_nets () () 0.5 0.5) = Some app \<and>
         stepCount (simulatorRef app) = 1248 \<and> epsilon (simulatorRef app) < epsilonMin"
proof -
  have "sameShapes (nets (simulatorRef (App_initSimulator demo_nets () () 0.5 0.5)))"
    by (simp add: App_initSimulator_def Sim_new_def demo_nets_def sameShapes_def)
  then obtain app where r: "App_run demo_tf (replicate 1248 (0.5, demo_draws, 0.5, 0.5))
            (App_initSimulator demo_nets () () 0.5 0.5) = Some app"
    using App_run_returns [of demo_tf, OF demo_tf_keeps_shapes] by blast
  have "epsilon (simulatorRef app) < epsilonMin"
    by (rule App_run_reaches_violation [OF r]) simp
  moreover have "stepCount (simulatorRef app) = 1248"
    using App_run_from_init [OF r] by simp
  ultimately show ?thesis using r by blast
qed

end
